theory Spec2Isabelle
  imports Complex_Main "HOL-Library.Word" "HOL-Library.Log_Nat"
begin

section \<open>Data model of the telestration overlay (src/index.tsx, lines 17--85)\<close>

text \<open>
  In the geometry, the layout and the time comparison JavaScript numbers are idealised as
  real numbers: the arithmetic of the source is read exactly, without IEEE-754 rounding.
  The chroma-key segmentation compares computed values with thresholds that colours of
  real pixels meet exactly, so there the double-precision rounding of every operation is
  modelled (see \<open>fl\<close> below). Where the source divides by a quantity that can be zero
  the IEEE result (an infinity or NaN) is written out as a branch of its own, since HOL's
  \<open>x / 0 = 0\<close> is not what the program computes. Readings of the millisecond clock
  (\<open>Date.now()\<close>) and pixel counts are natural numbers.
\<close>

datatype ToolType =
  Pen | Line | Arrow | CurvedArrow | Circle | Polygon | ConnectedCircle
  | Masking | PlayerMove | Spotlight | Lens

record Point =
  pt_x :: real
  pt_y :: real
  pt_r :: "real option"
  pt_timestamp :: "nat option"

record Rect =
  rect_x :: real
  rect_y :: real
  rect_w :: real
  rect_h :: real

record Layout =
  lay_x :: real
  lay_y :: real
  lay_w :: real
  lay_h :: real
  lay_scale :: real

text \<open>
  One pixel of an \<open>ImageData\<close> buffer: four consecutive entries of its
  \<open>Uint8ClampedArray\<close>, each in 0..255. A buffer is the list of its pixels in
  index order, so the source's loop \<open>for (i = 0; i < data.length; i += 4)\<close> visits the
  list from left to right.
\<close>

type_synonym byte = "8 word"

record RGBA =
  px_r :: byte
  px_g :: byte
  px_b :: byte
  px_a :: byte

text \<open>
  The two DOM elements the mapper reads. \<open>canvas_width\<close> and \<open>canvas_height\<close> are the
  canvas' pixel-buffer size, \<open>canvas_left\<close> and \<open>canvas_top\<close> the origin of its bounding
  client rectangle. \<open>videoWidth\<close> and \<open>videoHeight\<close> are 0 until the metadata is loaded;
  \<open>video_frame\<close> is the visible frame as \<open>drawImage\<close> followed by
  \<open>getImageData\<close> reads it at native size.
\<close>

record HTMLCanvasElement =
  canvas_width :: nat
  canvas_height :: nat
  canvas_left :: real
  canvas_top :: real

record HTMLVideoElement =
  videoWidth :: nat
  videoHeight :: nat
  video_currentTime :: real
  video_frame :: "RGBA list"

record MouseEvent =
  clientX :: real
  clientY :: real

text \<open>
  Values of the source that are not a finite number or not an object: a coordinate that
  is an infinity or NaN after a division by zero, an array slot read as
  \<open>undefined\<close>, and the \<open>TypeError\<close> thrown by a method call on \<open>null\<close>.
\<close>

datatype js_anomaly = NonFiniteNumber | UndefinedElement | TypeError

section \<open>Geometry helpers and the coordinate mapper (lines 141--169, 1823--1839)\<close>

definition getDistance :: "Point \<Rightarrow> Point \<Rightarrow> real" where
  "getDistance p1 p2 = sqrt ((pt_x p2 - pt_x p1)\<^sup>2 + (pt_y p2 - pt_y p1)\<^sup>2)"

text \<open>
  The test \<open>cw / ch > videoRatio\<close> of the source on two pixel counts. For \<open>ch = 0\<close> the
  quotient is \<open>+Infinity\<close> when \<open>cw > 0\<close> (greater than every finite ratio) and NaN when
  \<open>cw = 0\<close> (every comparison with NaN is false).
\<close>

definition canvasRatio_gt :: "nat \<Rightarrow> nat \<Rightarrow> real \<Rightarrow> bool" where
  "canvasRatio_gt cw ch videoRatio =
     (if ch = 0 then 0 < cw else real cw / real ch > videoRatio)"

definition getVideoLayout :: "HTMLCanvasElement \<Rightarrow> HTMLVideoElement \<Rightarrow> Layout" where
  "getVideoLayout canvas video =
     (let vw = videoWidth video; vh = videoHeight video;
          cw = canvas_width canvas; ch = canvas_height canvas
      in if vw = 0 \<or> vh = 0
         then \<lparr>lay_x = 0, lay_y = 0, lay_w = real cw, lay_h = real ch, lay_scale = 1\<rparr>
         else
           let videoRatio = real vw / real vh
           in if canvasRatio_gt cw ch videoRatio
              then
                let drawH = real ch;
                    drawW = real ch * videoRatio;
                    drawX = (real cw - drawW) / 2;
                    drawY = 0;
                    scale = drawH / real vh
                in \<lparr>lay_x = drawX, lay_y = drawY, lay_w = drawW, lay_h = drawH,
                     lay_scale = scale\<rparr>
              else
                let drawW = real cw;
                    drawH = real cw / videoRatio;
                    drawY = (real ch - drawH) / 2;
                    drawX = 0;
                    scale = drawW / real vw
                in \<lparr>lay_x = drawX, lay_y = drawY, lay_w = drawW, lay_h = drawH,
                     lay_scale = scale\<rparr>)"

text \<open>
  The inverse map from a pointer event to video space. With either element unmounted the
  source answers the origin. A layout of scale 0 (an empty canvas) makes both quotients
  an infinity or NaN; the model reports that as \<open>NonFiniteNumber\<close>.
\<close>

definition getVideoSpacePoint ::
  "HTMLCanvasElement option \<Rightarrow> HTMLVideoElement option \<Rightarrow> MouseEvent \<Rightarrow> js_anomaly + Point"
where
  "getVideoSpacePoint canvasRef videoRef e =
     (case canvasRef of
        None \<Rightarrow> Inr \<lparr>pt_x = 0, pt_y = 0, pt_r = None, pt_timestamp = None\<rparr>
      | Some canvas \<Rightarrow>
          (case videoRef of
             None \<Rightarrow> Inr \<lparr>pt_x = 0, pt_y = 0, pt_r = None, pt_timestamp = None\<rparr>
           | Some video \<Rightarrow>
               let x = clientX e - canvas_left canvas;
                   y = clientY e - canvas_top canvas;
                   layout = getVideoLayout canvas video
               in if lay_scale layout = 0 then Inl NonFiniteNumber
                  else Inr \<lparr>pt_x = (x - lay_x layout) / lay_scale layout,
                            pt_y = (y - lay_y layout) / lay_scale layout,
                            pt_r = None, pt_timestamp = None\<rparr>))"

section \<open>Shapes and the component state (lines 35--85, 945--1006)\<close>

record Particle =
  initialAngle :: real
  speed :: real

text \<open>
  An \<open>ImageBitmap\<close> is either made from a pixel buffer of the given width and height,
  or from a canvas of \<open>w \<times> h\<close> pixels onto which the region \<open>(sx, sy, w, h)\<close> of a
  source was drawn.
\<close>

datatype ImageBitmap =
    PixelBitmap nat nat "RGBA list"
  | RegionBitmap ImageSource real real int int
and ImageSource = FromVideo | FromBitmap ImageBitmap

record SpotlightConfig =
  sc_size :: real
  sc_intensity :: real
  sc_rotation :: real
  sc_particles :: "Particle list"

record LensConfig =
  lc_radius :: real
  lc_zoom :: real

record RingConfig =
  rc_tilt :: real
  rc_isFilled :: "bool option"

text \<open>
  A shape. Optional properties are options. The id is the decimal string of a clock
  reading; it is kept as the reading itself.
\<close>

record Shape =
  shape_id :: nat
  shape_type :: "ToolType option"
  shape_points :: "Point list"
  shape_color :: string
  shape_strokeWidth :: real
  shape_isClosed :: "bool option"
  shape_isFilled :: "bool option"
  shape_isDashed :: "bool option"
  shape_isFreehand :: "bool option"
  shape_img :: "ImageBitmap option"
  shape_bgImg :: "ImageBitmap option"
  shape_box :: "Rect option"
  shape_timestamp :: nat
  shape_spotlightConfig :: "SpotlightConfig option"
  shape_lensConfig :: "LensConfig option"
  shape_ringConfig :: "RingConfig option"

record MaskSettings =
  ms_enabled :: bool
  ms_sensitivity :: real
  ms_showOverlay :: bool

record MaskLayerCache =
  mc_foreground :: "ImageBitmap option"
  mc_overlay :: "ImageBitmap option"
  mc_timestamp :: real

record ArrowSettings =
  as_isDashed :: bool
  as_isFreehand :: bool

record SpotlightSettings =
  ss_size :: real
  ss_intensity :: real
  ss_rotation :: real

record LensSettings =
  ls_size :: real
  ls_zoom :: real

record RingSettings =
  rs_tilt :: real
  rs_isFilled :: bool

record CapturedSprite =
  cs_sprite :: ImageBitmap
  cs_patch :: ImageBitmap
  cs_box :: Rect

datatype PlayerMoveState = Idle | Selecting | Moving

datatype ViewMode = VideoView | SlidesView

text \<open>
  The React state of the \<open>Workspace\<close> component that drawing, history and masking
  read and write. \<open>currentColor\<close> is the colour computed from the active preset.
  Every handler reads the state of the render it was created in and its setters write the
  next state; a handler is a function from the state to the next state.
\<close>

record Workspace =
  viewMode :: ViewMode
  isPlaying :: bool
  tool :: "ToolType option"
  currentColor :: string
  strokeWidth :: real
  shapes :: "Shape list"
  redoStack :: "Shape list list"
  isDrawing :: bool
  activePoints :: "Point list"
  currentDragStart :: "Point option"
  arrowSettings :: ArrowSettings
  playerMoveState :: PlayerMoveState
  playerSelectionRect :: "Rect option"
  capturedSprite :: "CapturedSprite option"
  spotlightSettings :: SpotlightSettings
  lensSettings :: LensSettings
  ringSettings :: RingSettings
  maskSettings :: MaskSettings
  maskCache :: MaskLayerCache
  isProcessingMask :: bool

text \<open>
  What a handler reads outside the React state: the two element refs, whether
  \<open>getContext('2d')\<close> answers a context on the visible canvas and on an
  \<open>OffscreenCanvas\<close>, the first and the second reading of \<open>Date.now()\<close> the
  handler makes, and the successive results of \<open>Math.random()\<close>.
\<close>

record Env =
  canvasRef :: "HTMLCanvasElement option"
  videoRef :: "HTMLVideoElement option"
  canvas2d :: bool
  offscreen2d :: bool
  now1 :: nat
  now2 :: nat
  random :: "nat \<Rightarrow> real"

section \<open>History: addShape, undo, redo, clearAll (lines 2097--2127)\<close>

definition addShape :: "Shape \<Rightarrow> Workspace \<Rightarrow> Workspace" where
  "addShape shape st =
     (let newShapes = shapes st @ [shape]
      in st\<lparr>shapes := newShapes, redoStack := []\<rparr>)"

definition undo :: "Workspace \<Rightarrow> Workspace" where
  "undo st =
     (if length (shapes st) = 0 then st
      else
        let lst = last (shapes st)
        in st\<lparr>redoStack := redoStack st @ [[lst]], shapes := butlast (shapes st)\<rparr>)"

text \<open>
  \<open>redo\<close> reads element 0 of the last group. A group that is empty gives
  \<open>undefined\<close>, which the source would append to the shapes; the model reports it as
  \<open>UndefinedElement\<close>.
\<close>

definition redo :: "Workspace \<Rightarrow> js_anomaly + Workspace" where
  "redo st =
     (if length (redoStack st) = 0 then Inr st
      else
        let nextGroup = last (redoStack st)
        in case nextGroup of
             [] \<Rightarrow> Inl UndefinedElement
           | nxt # _ \<Rightarrow>
               Inr (st\<lparr>shapes := shapes st @ [nxt], redoStack := butlast (redoStack st)\<rparr>))"

definition clearAll :: "Workspace \<Rightarrow> Workspace" where
  "clearAll st =
     st\<lparr>shapes := [], redoStack := [], activePoints := [], isDrawing := False,
        currentDragStart := None, playerMoveState := Idle, playerSelectionRect := None,
        capturedSprite := None\<rparr>"

text \<open>Sequences of calls, one event after the other.\<close>

fun addShapes :: "Shape list \<Rightarrow> Workspace \<Rightarrow> Workspace" where
  "addShapes [] st = st"
| "addShapes (shape # rest) st = addShapes rest (addShape shape st)"

fun undo_times :: "nat \<Rightarrow> Workspace \<Rightarrow> Workspace" where
  "undo_times 0 st = st"
| "undo_times (Suc n) st = undo_times n (undo st)"

fun redo_times :: "nat \<Rightarrow> Workspace \<Rightarrow> js_anomaly + Workspace" where
  "redo_times 0 st = Inr st"
| "redo_times (Suc n) st =
     (case redo st of Inl e \<Rightarrow> Inl e | Inr st' \<Rightarrow> redo_times n st')"

section \<open>Tool switch and the playback effect (lines 2749--2756, 1130--1141)\<close>

text \<open>The click handler of a tool button for the tool \<open>item\<close>.\<close>

definition setToolOnClick :: "ToolType \<Rightarrow> Workspace \<Rightarrow> Workspace" where
  "setToolOnClick item st =
     (if viewMode st = SlidesView then st
      else if item = Masking
        then st\<lparr>tool := (if tool st = Some Masking then None else Some Masking)\<rparr>
        else st\<lparr>tool := (if tool st = Some item then None else Some item)\<rparr>)"

text \<open>The effect that runs after a render in which \<open>isPlaying\<close> has changed.\<close>

definition isPlayingEffect :: "Workspace \<Rightarrow> Workspace" where
  "isPlayingEffect st =
     (if isPlaying st
      then st\<lparr>shapes := [], redoStack := [], activePoints := [], isDrawing := False,
              currentDragStart := None, playerMoveState := Idle,
              playerSelectionRect := None, capturedSprite := None\<rparr>
      else st)"

text \<open>Enabling playback: \<open>setIsPlaying(true)\<close>, then the effect of the next render.\<close>

definition enablePlayback :: "Workspace \<Rightarrow> Workspace" where
  "enablePlayback st = isPlayingEffect (st\<lparr>isPlaying := True\<rparr>)"

section \<open>Double-precision rounding\<close>

text \<open>
  A JavaScript number is an IEEE-754 double, and every arithmetic operation answers the
  double nearest to the exact result, a tie going to the even significand. \<open>fl\<close> is
  that rounding: \<open>binaryExponent a\<close> is the exponent \<open>e\<close> with
  \<open>2\<^sup>e \<le> a < 2\<^sup>e\<^sup>+\<^sup>1\<close>, a double of that binade is a multiple of \<open>2\<^sup>e\<^sup>-\<^sup>5\<^sup>2\<close>, and
  \<open>roundHalfEven\<close> picks the nearest multiple. The exponent is not bounded: overflow
  and subnormal numbers are not modelled, and no value of the segmentation reaches them.
  An operation \<open>x \<circ> y\<close> of the source on doubles is \<open>fl (x \<circ> y)\<close>, and a decimal
  literal \<open>c\<close> is \<open>fl c\<close>.
\<close>

definition roundHalfEven :: "real \<Rightarrow> int" where
  "roundHalfEven m =
     (let f = \<lfloor>m\<rfloor>; r = m - of_int f
      in if r < 1 / 2 then f
         else if r > 1 / 2 then f + 1
         else if even f then f else f + 1)"

definition binaryExponent :: "real \<Rightarrow> int" where
  "binaryExponent a =
     (if 1 \<le> a then bitlen \<lfloor>a\<rfloor> - 1 else - bitlen (\<lceil>1 / a\<rceil> - 1))"

definition fl :: "real \<Rightarrow> real" where
  "fl x =
     (if x = 0 then 0
      else
        let a = \<bar>x\<bar>;
            e = binaryExponent a;
            u = 2 powi (e - 52);
            n = roundHalfEven (a / u)
        in sgn x * (of_int n * u))"

section \<open>Chroma-key segmentation (lines 223--239, 1701--1770)\<close>

text \<open>
  \<open>rgbToHsl\<close> on doubles, each operation rounded. The \<open>switch (max)\<close> of the source
  tries \<open>r\<close>, then \<open>g\<close>, then \<open>b\<close>; \<open>2 - max - min\<close> is \<open>(2 - max) - min\<close>. For
  components in 0..255 no denominator is zero where it is used.
\<close>

definition rgbToHsl :: "real \<Rightarrow> real \<Rightarrow> real \<Rightarrow> real \<times> real \<times> real" where
  "rgbToHsl r0 g0 b0 =
     (let r = fl (r0 / 255); g = fl (g0 / 255); b = fl (b0 / 255);
          mx = max (max r g) b; mn = min (min r g) b;
          l = fl (fl (mx + mn) / 2)
      in if mx \<noteq> mn
         then
           let d = fl (mx - mn);
               s = (if l > 0.5 then fl (d / fl (fl (2 - mx) - mn))
                    else fl (d / fl (mx + mn)));
               h = (if mx = r then fl (fl (fl (g - b) / d) + (if g < b then 6 else 0))
                    else if mx = g then fl (fl (fl (b - r) / d) + 2)
                    else if mx = b then fl (fl (fl (r - g) / d) + 4)
                    else 0)
           in (fl (fl (h / 6) * 360), s, l)
         else (0 * 360, 0, l))"


text \<open>
  The test \<open>isGreen\<close> of the pixel loop, for the sensitivity of the mask settings. The
  literals 0.4, 0.15 and 0.85 are the doubles nearest to them.
\<close>

definition isGreen :: "real \<Rightarrow> byte \<Rightarrow> byte \<Rightarrow> byte \<Rightarrow> bool" where
  "isGreen sensitivityThreshold r g b =
     (let hMin = fl (75 - fl (sensitivityThreshold * fl 0.4));
          hMax = fl (155 + fl (sensitivityThreshold * fl 0.4));
          sMin = fl 0.15;
          lMin = fl 0.15;
          lMax = fl 0.85
      in case rgbToHsl (real (unat r)) (real (unat g)) (real (unat b)) of
           (h, s, l) \<Rightarrow> (h \<ge> hMin \<and> h \<le> hMax) \<and> s \<ge> sMin \<and> (l \<ge> lMin \<and> l \<le> lMax))"

text \<open>
  One turn of the loop: the pixel written to the foreground buffer and the pixel written
  to the overlay buffer. Both buffers come from \<open>createImageData\<close>, so every entry
  the loop does not write is 0.
\<close>

definition maskPixel :: "real \<Rightarrow> RGBA \<Rightarrow> RGBA \<times> RGBA" where
  "maskPixel sensitivityThreshold p =
     (let r = px_r p; g = px_g p; b = px_b p
      in if isGreen sensitivityThreshold r g b
         then (\<lparr>px_r = 0, px_g = 0, px_b = 0, px_a = 0\<rparr>,
               \<lparr>px_r = 239, px_g = 68, px_b = 68, px_a = 102\<rparr>)
         else (\<lparr>px_r = r, px_g = g, px_b = b, px_a = 255\<rparr>,
               \<lparr>px_r = 0, px_g = 0, px_b = 0, px_a = 0\<rparr>))"



section \<open>Sprite capture (lines 1784--1819)\<close>

definition captureSprite :: "Env \<Rightarrow> Workspace \<Rightarrow> Rect \<Rightarrow> CapturedSprite option" where
  "captureSprite env st rect =
     (case videoRef env of
        None \<Rightarrow> None
      | Some video \<Rightarrow>
          let w = \<lceil>rect_w rect\<rceil>;
              h = \<lceil>rect_h rect\<rceil>
          in if w \<le> 0 \<or> h \<le> 0 then None
             else
               let bgX0 = rect_x rect + real_of_int w * 1.5;
                   bgX1 = (if bgX0 + real_of_int w > real (videoWidth video)
                           then rect_x rect - real_of_int w * 1.5 else bgX0);
                   bgX = (if bgX1 < 0 then 0 else bgX1);
                   bgY = rect_y rect
               in if \<not> offscreen2d env then None
                  else
                    Some \<lparr>cs_sprite =
                            (case mc_foreground (maskCache st) of
                               Some foreground \<Rightarrow>
                                 if ms_enabled (maskSettings st)
                                 then RegionBitmap (FromBitmap foreground)
                                        (rect_x rect) (rect_y rect) w h
                                 else RegionBitmap FromVideo (rect_x rect) (rect_y rect) w h
                             | None \<Rightarrow>
                                 RegionBitmap FromVideo (rect_x rect) (rect_y rect) w h),
                          cs_patch = RegionBitmap FromVideo bgX bgY w h,
                          cs_box = rect\<rparr>)"

section \<open>Pointer-up: finishDrawing (lines 171--180, 1924--2065)\<close>

definition createParticles :: "(nat \<Rightarrow> real) \<Rightarrow> nat \<Rightarrow> Particle list" where
  "createParticles rnd count =
     map (\<lambda>i. \<lparr>initialAngle = rnd (2 * i) * pi * 2,
                speed = 0.002 + rnd (2 * i + 1) * 0.003\<rparr>) [0..<count]"

text \<open>
  The player-move branch. In the selecting phase a large enough rectangle starts
  \<open>captureSprite\<close>, whose promise is still pending when the handler returns: the
  second component is the rectangle of the pending capture. \<open>captureSpriteThen\<close> is the
  callback that runs when that promise resolves.
\<close>

definition finishPlayerMove ::
  "Env \<Rightarrow> Point \<Rightarrow> Workspace \<Rightarrow> Workspace \<times> Rect option"
where
  "finishPlayerMove env currentPoint st =
     (case (playerMoveState st, playerSelectionRect st, capturedSprite st) of
        (Selecting, Some sel, _) \<Rightarrow>
          let w = pt_x currentPoint - rect_x sel;
              h = pt_y currentPoint - rect_y sel
          in if \<bar>w\<bar> < 10 \<or> \<bar>h\<bar> < 10
             then (st\<lparr>playerMoveState := Idle, playerSelectionRect := None\<rparr>, None)
             else
               let finalRect =
                     \<lparr>rect_x = (if w > 0 then rect_x sel else pt_x currentPoint),
                      rect_y = (if h > 0 then rect_y sel else pt_y currentPoint),
                      rect_w = \<bar>w\<bar>,
                      rect_h = \<bar>h\<bar>\<rparr>
               in (st\<lparr>playerSelectionRect := None\<rparr>, Some finalRect)
      | (Moving, _, Some captured) \<Rightarrow>
          let bx = cs_box captured;
              destCenter = currentPoint;
              newShape =
                \<lparr>shape_id = now1 env,
                 shape_type = Some PlayerMove,
                 shape_points =
                   [\<lparr>pt_x = rect_x bx + rect_w bx / 2, pt_y = rect_y bx + rect_h bx / 2,
                     pt_r = None, pt_timestamp = None\<rparr>,
                    destCenter],
                 shape_color = currentColor st,
                 shape_strokeWidth = strokeWidth st,
                 shape_isClosed = None, shape_isFilled = None,
                 shape_isDashed = None, shape_isFreehand = None,
                 shape_img = Some (cs_sprite captured),
                 shape_bgImg = Some (cs_patch captured),
                 shape_box = Some bx,
                 shape_timestamp = now2 env,
                 shape_spotlightConfig = None, shape_lensConfig = None,
                 shape_ringConfig = None\<rparr>
          in ((addShape newShape st)\<lparr>playerMoveState := Idle, capturedSprite := None\<rparr>,
              None)
      | _ \<Rightarrow> (st, None))"

definition captureSpriteThen :: "CapturedSprite option \<Rightarrow> Workspace \<Rightarrow> Workspace" where
  "captureSpriteThen res st =
     (case res of
        Some captured \<Rightarrow> st\<lparr>capturedSprite := Some captured, playerMoveState := Moving\<rparr>
      | None \<Rightarrow> st\<lparr>playerMoveState := Idle\<rparr>)"

text \<open>The chain branch (tool \<open>connected-circle\<close>).\<close>

definition finishChain :: "Env \<Rightarrow> Point \<Rightarrow> Workspace \<Rightarrow> Workspace" where
  "finishChain env currentPoint st =
     (case currentDragStart st of
        None \<Rightarrow> st
      | Some dragStart \<Rightarrow>
          if \<not> isDrawing st then st
          else
            let radius = getDistance dragStart currentPoint
            in if length (activePoints st) \<ge> 2
                  \<and> getDistance currentPoint (activePoints st ! 0) < 40
               then
                 let newShape =
                       \<lparr>shape_id = now1 env,
                        shape_type = Some ConnectedCircle,
                        shape_points = activePoints st,
                        shape_color = currentColor st,
                        shape_strokeWidth = strokeWidth st,
                        shape_isClosed = Some True,
                        shape_isFilled = Some (rs_isFilled (ringSettings st)),
                        shape_isDashed = None, shape_isFreehand = None,
                        shape_img = None, shape_bgImg = None, shape_box = None,
                        shape_timestamp = now2 env,
                        shape_spotlightConfig = None, shape_lensConfig = None,
                        shape_ringConfig =
                          Some \<lparr>rc_tilt = rs_tilt (ringSettings st), rc_isFilled = None\<rparr>\<rparr>
                 in (addShape newShape st)
                      \<lparr>activePoints := [], isDrawing := False, currentDragStart := None\<rparr>
               else
                 let st1 =
                       (if radius > 5
                        then st\<lparr>activePoints := activePoints st @
                                  [\<lparr>pt_x = pt_x dragStart, pt_y = pt_y dragStart,
                                    pt_r = Some radius, pt_timestamp = Some (now1 env)\<rparr>]\<rparr>
                        else st)
                 in st1\<lparr>isDrawing := False, currentDragStart := None\<rparr>)"

text \<open>
  The last branch, for pen, line, arrow, curved arrow and ring. \<open>activePoints[0]\<close> of
  an empty list is \<open>undefined\<close>; when it stays in the points to save the model
  reports \<open>UndefinedElement\<close>.
\<close>

definition finishStroke :: "Env \<Rightarrow> ToolType \<Rightarrow> Point \<Rightarrow> Workspace \<Rightarrow> js_anomaly + Workspace" where
  "finishStroke env kind currentPoint st =
     (let pts0 = (case activePoints st of
                    [] \<Rightarrow> None
                  | p # _ \<Rightarrow> Some [p, currentPoint]);
          pts1 = (case currentDragStart st of
                    Some dragStart \<Rightarrow>
                      if kind = Circle then Some [dragStart, currentPoint] else pts0
                  | None \<Rightarrow> pts0);
          pts2 = (if kind = Pen \<or> (kind = Arrow \<and> as_isFreehand (arrowSettings st))
                  then Some (activePoints st @ [currentPoint]) else pts1)
      in case pts2 of
           None \<Rightarrow> Inl UndefinedElement
         | Some pointsToSave \<Rightarrow>
             let newShape =
                   \<lparr>shape_id = now1 env,
                    shape_type = Some kind,
                    shape_points = pointsToSave,
                    shape_color = currentColor st,
                    shape_strokeWidth = strokeWidth st,
                    shape_isClosed = None, shape_isFilled = None,
                    shape_isDashed = Some (as_isDashed (arrowSettings st)),
                    shape_isFreehand = Some (as_isFreehand (arrowSettings st)),
                    shape_img = None, shape_bgImg = None, shape_box = None,
                    shape_timestamp = now2 env,
                    shape_spotlightConfig = None, shape_lensConfig = None,
                    shape_ringConfig =
                      (if kind = Circle
                       then Some \<lparr>rc_tilt = rs_tilt (ringSettings st), rc_isFilled = None\<rparr>
                       else None)\<rparr>
             in Inr ((addShape newShape st)
                       \<lparr>isDrawing := False, activePoints := [], currentDragStart := None\<rparr>))"

text \<open>
  \<open>finishDrawing\<close> for the video-space point \<open>currentPoint\<close> that
  \<open>getVideoSpacePoint\<close> answered for the event.
\<close>

definition finishDrawing ::
  "Env \<Rightarrow> Point \<Rightarrow> Workspace \<Rightarrow> js_anomaly + (Workspace \<times> Rect option)"
where
  "finishDrawing env currentPoint st =
     (case tool st of
        None \<Rightarrow> Inr (st, None)
      | Some kind \<Rightarrow>
          if kind = Masking then Inr (st, None)
          else if kind = PlayerMove then Inr (finishPlayerMove env currentPoint st)
          else if kind = Spotlight \<and> isDrawing st then
            Inr (addShape
                   \<lparr>shape_id = now1 env,
                    shape_type = Some Spotlight,
                    shape_points = [currentPoint],
                    shape_color = ''#ffffff'',
                    shape_strokeWidth = 1,
                    shape_isClosed = None, shape_isFilled = None,
                    shape_isDashed = None, shape_isFreehand = None,
                    shape_img = None, shape_bgImg = None, shape_box = None,
                    shape_timestamp = now2 env,
                    shape_spotlightConfig =
                      Some \<lparr>sc_size = ss_size (spotlightSettings st),
                            sc_intensity = ss_intensity (spotlightSettings st),
                            sc_rotation = ss_rotation (spotlightSettings st),
                            sc_particles = createParticles (random env) 30\<rparr>,
                    shape_lensConfig = None, shape_ringConfig = None\<rparr>
                   (st\<lparr>isDrawing := False\<rparr>),
                 None)
          else if kind = Lens \<and> isDrawing st then
            Inr (addShape
                   \<lparr>shape_id = now1 env,
                    shape_type = Some Lens,
                    shape_points = [currentPoint],
                    shape_color = ''#ffffff'',
                    shape_strokeWidth = 1,
                    shape_isClosed = None, shape_isFilled = None,
                    shape_isDashed = None, shape_isFreehand = None,
                    shape_img = None, shape_bgImg = None, shape_box = None,
                    shape_timestamp = now2 env,
                    shape_spotlightConfig = None,
                    shape_lensConfig =
                      Some \<lparr>lc_radius = ls_size (lensSettings st),
                            lc_zoom = ls_zoom (lensSettings st)\<rparr>,
                    shape_ringConfig = None\<rparr>
                   (st\<lparr>isDrawing := False\<rparr>),
                 None)
          else if kind = ConnectedCircle then Inr (finishChain env currentPoint st, None)
          else if kind = Polygon then Inr (st, None)
          else if isDrawing st then
            (case finishStroke env kind currentPoint st of
               Inl a \<Rightarrow> Inl a
             | Inr st' \<Rightarrow> Inr (st', None))
          else Inr (st, None))"

section \<open>The frame compositor's mask layers (lines 2150--2211)\<close>

datatype RenderMode = Full | Shadow | Body

text \<open>
  The calls \<open>renderCanvas\<close> makes on the 2D context, in order. A shape's own drawing
  routine is one operation; \<open>DrawImage\<close> is a \<open>ctx.drawImage\<close> issued by
  \<open>renderCanvas\<close> itself.
\<close>

datatype DrawOp =
    ClearRect real real real real
  | DrawImage ImageBitmap real real real real
  | Save
  | Translate real real
  | Scale real real
  | Restore
  | DrawShapeOnCanvas Shape real RenderMode
  | DrawLens Point real real real

definition isMaskSynced :: "MaskLayerCache \<Rightarrow> real \<Rightarrow> bool" where
  "isMaskSynced cache currentVideoTime =
     (mc_timestamp cache \<noteq> - 1 \<and> \<bar>mc_timestamp cache - currentVideoTime\<bar> < 0.15)"

definition drawLower :: "real \<Rightarrow> Shape \<Rightarrow> DrawOp list" where
  "drawLower scale shape =
     (if shape_type shape = Some PlayerMove \<or> shape_type shape = Some Lens then []
      else if shape_type shape = Some CurvedArrow then [DrawShapeOnCanvas shape scale Shadow]
      else [DrawShapeOnCanvas shape scale Full])"

definition drawUpper :: "real \<Rightarrow> Shape \<Rightarrow> DrawOp list" where
  "drawUpper scale shape =
     (if shape_type shape = Some CurvedArrow then [DrawShapeOnCanvas shape scale Body] else [])
     @ (if shape_type shape = Some PlayerMove then [DrawShapeOnCanvas shape scale Full] else [])
     @ (if shape_type shape = Some Lens
        then (case shape_lensConfig shape of
                None \<Rightarrow> []
              | Some lensConfig \<Rightarrow>
                  (case shape_points shape of
                     [] \<Rightarrow> []
                   | p # _ \<Rightarrow> [DrawLens p (lc_radius lensConfig) (lc_zoom lensConfig) scale]))
        else [])"

definition renderCanvas :: "Env \<Rightarrow> Workspace \<Rightarrow> DrawOp list" where
  "renderCanvas env st =
     (case canvasRef env of
        None \<Rightarrow> []
      | Some canvas \<Rightarrow>
          (case videoRef env of
             None \<Rightarrow> []
           | Some video \<Rightarrow>
               if \<not> canvas2d env then []
               else
                 let layout = getVideoLayout canvas video;
                     x = lay_x layout; y = lay_y layout;
                     w = lay_w layout; h = lay_h layout;
                     scale = lay_scale layout;
                     currentVideoTime = video_currentTime video;
                     synced = isMaskSynced (maskCache st) currentVideoTime
                 in [ClearRect 0 0 (real (canvas_width canvas)) (real (canvas_height canvas))]
                    @ (case mc_overlay (maskCache st) of
                         Some overlay \<Rightarrow>
                           if ms_enabled (maskSettings st) \<and> \<not> isPlaying st
                              \<and> ms_showOverlay (maskSettings st) \<and> synced
                           then [DrawImage overlay x y w h] else []
                       | None \<Rightarrow> [])
                    @ [Save, Translate x y, Scale scale scale]
                    @ concat (map (drawLower scale) (shapes st))
                    @ [Restore]
                    @ (case mc_foreground (maskCache st) of
                         Some foreground \<Rightarrow>
                           if ms_enabled (maskSettings st) \<and> \<not> isPlaying st \<and> synced
                           then [DrawImage foreground x y w h] else []
                       | None \<Rightarrow> [])
                    @ [Save, Translate x y, Scale scale scale]
                    @ concat (map (drawUpper scale) (shapes st))
                    @ [Restore]))"

section \<open>Concrete states and inputs\<close>

text \<open>The state of the first render: the initial values of the \<open>useState\<close> calls.\<close>

definition initialWorkspace :: Workspace where
  "initialWorkspace =
     \<lparr>viewMode = VideoView, isPlaying = False, tool = None,
      currentColor = ''#00eaff'', strokeWidth = 4,
      shapes = [], redoStack = [],
      isDrawing = False, activePoints = [], currentDragStart = None,
      arrowSettings = \<lparr>as_isDashed = False, as_isFreehand = False\<rparr>,
      playerMoveState = Idle, playerSelectionRect = None, capturedSprite = None,
      spotlightSettings = \<lparr>ss_size = 45, ss_intensity = 0.75, ss_rotation = 0.45\<rparr>,
      lensSettings = \<lparr>ls_size = 75, ls_zoom = 2\<rparr>,
      ringSettings = \<lparr>rs_tilt = 65, rs_isFilled = False\<rparr>,
      maskSettings = \<lparr>ms_enabled = False, ms_sensitivity = 40, ms_showOverlay = True\<rparr>,
      maskCache = \<lparr>mc_foreground = None, mc_overlay = None, mc_timestamp = - 1\<rparr>,
      isProcessingMask = False\<rparr>"

definition mkPoint :: "real \<Rightarrow> real \<Rightarrow> Point" where
  "mkPoint a b = \<lparr>pt_x = a, pt_y = b, pt_r = None, pt_timestamp = None\<rparr>"

definition mkNode :: "real \<Rightarrow> real \<Rightarrow> real \<Rightarrow> nat \<Rightarrow> Point" where
  "mkNode a b rad t = \<lparr>pt_x = a, pt_y = b, pt_r = Some rad, pt_timestamp = Some t\<rparr>"

text \<open>A straight line drawn at clock reading \<open>t\<close> from the origin to \<open>(a, b)\<close>.\<close>

definition lineShape :: "nat \<Rightarrow> real \<Rightarrow> real \<Rightarrow> Shape" where
  "lineShape t a b =
     \<lparr>shape_id = t, shape_type = Some Line,
      shape_points = [mkPoint 0 0, mkPoint a b],
      shape_color = ''#00eaff'', shape_strokeWidth = 4,
      shape_isClosed = None, shape_isFilled = None,
      shape_isDashed = Some False, shape_isFreehand = Some False,
      shape_img = None, shape_bgImg = None, shape_box = None,
      shape_timestamp = t,
      shape_spotlightConfig = None, shape_lensConfig = None, shape_ringConfig = None\<rparr>"

text \<open>A canvas of 800 by 600 pixels and a video of 1920 by 1080 showing a frame of \<open>f\<close>.\<close>

definition canvas800x600 :: HTMLCanvasElement where
  "canvas800x600 =
     \<lparr>canvas_width = 800, canvas_height = 600, canvas_left = 0, canvas_top = 0\<rparr>"

definition video1080p :: "real \<Rightarrow> RGBA list \<Rightarrow> HTMLVideoElement" where
  "video1080p t f =
     \<lparr>videoWidth = 1920, videoHeight = 1080, video_currentTime = t, video_frame = f\<rparr>"

definition sampleEnv :: "real \<Rightarrow> RGBA list \<Rightarrow> Env" where
  "sampleEnv t f =
     \<lparr>canvasRef = Some canvas800x600, videoRef = Some (video1080p t f),
      canvas2d = True, offscreen2d = True, now1 = 1000, now2 = 1000,
      random = (\<lambda>i. 0)\<rparr>"

definition greenPixel :: RGBA where
  "greenPixel = \<lparr>px_r = 0, px_g = 255, px_b = 0, px_a = 255\<rparr>"

definition whitePixel :: RGBA where
  "whitePixel = \<lparr>px_r = 255, px_g = 255, px_b = 255, px_a = 255\<rparr>"



text \<open>
  The chain tool with three accepted nodes and the pointer pressed at (110, 100), ten
  units from the first node.
\<close>

definition chainInProgress :: Workspace where
  "chainInProgress =
     initialWorkspace
       \<lparr>tool := Some ConnectedCircle, isDrawing := True,
        activePoints := [mkNode 100 100 30 1, mkNode 300 100 30 2, mkNode 200 300 30 3],
        currentDragStart := Some (mkPoint 110 100)\<rparr>"

text \<open>The player-move tool after a pointer press at (100, 100).\<close>

definition selectingAt100 :: Workspace where
  "selectingAt100 =
     initialWorkspace
       \<lparr>tool := Some PlayerMove, playerMoveState := Selecting,
        playerSelectionRect := Some \<lparr>rect_x = 100, rect_y = 100, rect_w = 0, rect_h = 0\<rparr>\<rparr>"

section \<open>Properties of the history\<close>

lemma shapes_addShape: "shapes (addShape shape st) = shapes st @ [shape]"
  by (simp add: addShape_def)

lemma redoStack_addShape: "redoStack (addShape shape st) = []"
  by (simp add: addShape_def)

lemma shapes_addShapes: "shapes (addShapes xs st) = shapes st @ xs"
  by (induction xs arbitrary: st) (simp_all add: shapes_addShape)

lemma redoStack_addShapes:
  "redoStack (addShapes xs st) = (if xs = [] then redoStack st else [])"
proof (induction xs arbitrary: st)
  case Nil
  show ?case by simp
next
  case (Cons x xs)
  show ?case by (simp add: Cons.IH redoStack_addShape)
qed

lemma undo_snoc:
  "shapes st = ys @ [x] \<Longrightarrow>
     shapes (undo st) = ys \<and> redoStack (undo st) = redoStack st @ [[x]]"
  by (simp add: undo_def)

lemma undo_times_shapes:
  "shapes st = ys @ xs \<Longrightarrow>
     shapes (undo_times (length xs) st) = ys \<and>
     redoStack (undo_times (length xs) st) = redoStack st @ map (\<lambda>s. [s]) (rev xs)"
proof (induction xs arbitrary: st rule: rev_induct)
  case Nil
  then show ?case by simp
next
  case (snoc x xs)
  from snoc.prems have sh: "shapes st = (ys @ xs) @ [x]" by simp
  have u: "shapes (undo st) = ys @ xs" "redoStack (undo st) = redoStack st @ [[x]]"
    using undo_snoc [OF sh] by simp_all
  show ?case using snoc.IH [OF u(1)] u(2) by simp
qed

lemma redo_snoc:
  "redoStack st = rs @ [[x]] \<Longrightarrow>
     redo st = Inr (st\<lparr>shapes := shapes st @ [x], redoStack := rs\<rparr>)"
  by (simp add: redo_def)

lemma redo_times_groups:
  "redoStack st = rs @ map (\<lambda>s. [s]) (rev xs) \<Longrightarrow>
     \<exists>st'. redo_times (length xs) st = Inr st' \<and> shapes st' = shapes st @ xs
            \<and> redoStack st' = rs"
proof (induction xs arbitrary: st)
  case Nil
  then show ?case by simp
next
  case (Cons x xs)
  from Cons.prems have r: "redoStack st = (rs @ map (\<lambda>s. [s]) (rev xs)) @ [[x]]" by simp
  let ?st1 = "st\<lparr>shapes := shapes st @ [x], redoStack := rs @ map (\<lambda>s. [s]) (rev xs)\<rparr>"
  have step: "redo st = Inr ?st1" using redo_snoc [OF r] .
  have "redoStack ?st1 = rs @ map (\<lambda>s. [s]) (rev xs)" by simp
  from Cons.IH [OF this] obtain st' where
    "redo_times (length xs) ?st1 = Inr st'" "shapes st' = shapes ?st1 @ xs" "redoStack st' = rs"
    by blast
  then show ?case using step by simp
qed

text \<open>
  Claim C2. Start from an empty history (no shapes, empty redo buffer) and add the shapes
  \<open>xs\<close> one after the other. The history then holds \<open>xs\<close> in order. Calling
  \<open>undo\<close> as many times as there are shapes empties the history and leaves in the redo
  buffer the shapes in reverse order, each as a group of one. Calling \<open>redo\<close> as many
  times from there never meets an empty group and gives back the history \<open>xs\<close> in the
  original order with an empty redo buffer. In any state \<open>st0\<close>, whatever its redo buffer
  holds, \<open>addShape\<close> leaves the redo buffer empty.
\<close>

theorem history_discipline:
  assumes "shapes st = []" and "redoStack st = []"
  shows "shapes (addShapes xs st) = xs
       \<and> shapes (undo_times (length xs) (addShapes xs st)) = []
       \<and> redoStack (undo_times (length xs) (addShapes xs st)) = map (\<lambda>s. [s]) (rev xs)
       \<and> (\<exists>st'. redo_times (length xs) (undo_times (length xs) (addShapes xs st)) = Inr st'
              \<and> shapes st' = xs \<and> redoStack st' = [])
       \<and> redoStack (addShape shape st0) = []"
proof -
  let ?a = "addShapes xs st"
  let ?u = "undo_times (length xs) ?a"
  have a: "shapes ?a = [] @ xs" using assms by (simp add: shapes_addShapes)
  have ra: "redoStack ?a = []" using assms by (simp add: redoStack_addShapes)
  have u: "shapes ?u = []" "redoStack ?u = [] @ map (\<lambda>s. [s]) (rev xs)"
    using undo_times_shapes [OF a] ra by simp_all
  obtain st' where "redo_times (length xs) ?u = Inr st'" "shapes st' = shapes ?u @ xs"
      "redoStack st' = []"
    using redo_times_groups [OF u(2)] by blast
  then show ?thesis using a u by (simp add: redoStack_addShape)
qed

theorem history_discipline_witness:
  "shapes initialWorkspace = [] \<and> redoStack initialWorkspace = []
   \<and> shapes (addShapes [lineShape 1 10 0, lineShape 2 0 10, lineShape 3 5 5] initialWorkspace)
       = [lineShape 1 10 0, lineShape 2 0 10, lineShape 3 5 5]
   \<and> shapes (undo_times 3
        (addShapes [lineShape 1 10 0, lineShape 2 0 10, lineShape 3 5 5] initialWorkspace)) = []
   \<and> redoStack (undo_times 3
        (addShapes [lineShape 1 10 0, lineShape 2 0 10, lineShape 3 5 5] initialWorkspace))
       = [[lineShape 3 5 5], [lineShape 2 0 10], [lineShape 1 10 0]]
   \<and> (\<exists>st'. redo_times 3 (undo_times 3
          (addShapes [lineShape 1 10 0, lineShape 2 0 10, lineShape 3 5 5] initialWorkspace))
          = Inr st'
        \<and> shapes st' = [lineShape 1 10 0, lineShape 2 0 10, lineShape 3 5 5]
        \<and> redoStack st' = [])
   \<and> redoStack (addShape (lineShape 4 1 1)
        (undo (addShapes [lineShape 1 10 0, lineShape 2 0 10] initialWorkspace))) = []"
proof -
  have e: "shapes initialWorkspace = []" "redoStack initialWorkspace = []"
    by (simp_all add: initialWorkspace_def)
  show ?thesis
    using e history_discipline [OF e,
        of "[lineShape 1 10 0, lineShape 2 0 10, lineShape 3 5 5]" "lineShape 4 1 1"
           "undo (addShapes [lineShape 1 10 0, lineShape 2 0 10] initialWorkspace)"]
    by (simp add: numeral_3_eq_3)
qed

text \<open>
  Claim C10. With no shapes \<open>undo\<close> returns the state it was given, and with an empty
  redo buffer \<open>redo\<close> returns the state it was given, without an anomaly: neither the
  shape history nor the redo buffer changes.
\<close>

theorem undo_redo_empty_noop:
  "(shapes st = [] \<longrightarrow> undo st = st) \<and> (redoStack st = [] \<longrightarrow> redo st = Inr st)"
  by (simp add: undo_def redo_def)

theorem undo_redo_empty_noop_witness:
  "shapes initialWorkspace = [] \<and> redoStack initialWorkspace = []
   \<and> undo initialWorkspace = initialWorkspace
   \<and> redo initialWorkspace = Inr initialWorkspace"
proof -
  have e: "shapes initialWorkspace = []" "redoStack initialWorkspace = []"
    by (simp_all add: initialWorkspace_def)
  show ?thesis using e undo_redo_empty_noop [of initialWorkspace] by simp
qed

section \<open>Properties of the coordinate mapper\<close>

lemma getVideoLayout_unknown:
  "videoWidth video = 0 \<or> videoHeight video = 0 \<Longrightarrow>
     getVideoLayout canvas video =
       \<lparr>lay_x = 0, lay_y = 0, lay_w = real (canvas_width canvas),
        lay_h = real (canvas_height canvas), lay_scale = 1\<rparr>"
  by (auto simp: getVideoLayout_def Let_def)

lemma getVideoLayout_known:
  assumes vw: "0 < videoWidth video" and vh: "0 < videoHeight video"
  shows "getVideoLayout canvas video =
     (let s = min (real (canvas_width canvas) / real (videoWidth video))
                  (real (canvas_height canvas) / real (videoHeight video))
      in \<lparr>lay_x = (real (canvas_width canvas) - real (videoWidth video) * s) / 2,
          lay_y = (real (canvas_height canvas) - real (videoHeight video) * s) / 2,
          lay_w = real (videoWidth video) * s,
          lay_h = real (videoHeight video) * s,
          lay_scale = s\<rparr>)"
proof (cases "canvasRatio_gt (canvas_width canvas) (canvas_height canvas)
                (real (videoWidth video) / real (videoHeight video))")
  case True
  then have le: "real (canvas_height canvas) / real (videoHeight video)
               \<le> real (canvas_width canvas) / real (videoWidth video)"
    using vw vh by (auto simp: canvasRatio_gt_def field_simps split: if_splits)
  show ?thesis using True vw vh le
    by (simp add: getVideoLayout_def Let_def min_absorb2 field_simps)
next
  case False
  then have le: "real (canvas_width canvas) / real (videoWidth video)
               \<le> real (canvas_height canvas) / real (videoHeight video)"
    using vw vh by (auto simp: canvasRatio_gt_def field_simps split: if_splits)
  show ?thesis using False vw vh le
    by (simp add: getVideoLayout_def Let_def min_absorb1 field_simps)
qed

lemma layout_800x600_1080p:
  "getVideoLayout canvas800x600 (video1080p t f) =
     \<lparr>lay_x = 0, lay_y = 75, lay_w = 800, lay_h = 450, lay_scale = 5 / 12\<rparr>"
  by (simp add: getVideoLayout_def canvas800x600_def video1080p_def canvasRatio_gt_def Let_def)

text \<open>
  Claim C1. For every canvas size and every media size \<open>getVideoLayout\<close> answers the
  contain-fit mapping. When the media width or height is 0 (not yet known) it answers
  scale 1 and the whole canvas as draw rectangle. Otherwise the scale is
  \<open>min (cw / vw) (ch / vh)\<close>, the draw rectangle is the media scaled by it, and its
  offsets are half of what the canvas has left over, so it is centred. For a media of
  1920 by 1080 on a canvas of 800 by 600 the scale is within 0.0001 of 0.4167, the draw
  rectangle is 800 by 450 at offset (0, 75), and \<open>getVideoSpacePoint\<close> sends the
  canvas point (400, 300) to the video point (960, 540).
\<close>

theorem contain_fit_mapping:
  "getVideoLayout canvas video =
     (if videoWidth video = 0 \<or> videoHeight video = 0
      then \<lparr>lay_x = 0, lay_y = 0, lay_w = real (canvas_width canvas),
            lay_h = real (canvas_height canvas), lay_scale = 1\<rparr>
      else
        let s = min (real (canvas_width canvas) / real (videoWidth video))
                    (real (canvas_height canvas) / real (videoHeight video))
        in \<lparr>lay_x = (real (canvas_width canvas) - real (videoWidth video) * s) / 2,
            lay_y = (real (canvas_height canvas) - real (videoHeight video) * s) / 2,
            lay_w = real (videoWidth video) * s,
            lay_h = real (videoHeight video) * s,
            lay_scale = s\<rparr>)
   \<and> \<bar>lay_scale (getVideoLayout canvas800x600 (video1080p t f)) - 0.4167\<bar> < 0.0001
   \<and> lay_w (getVideoLayout canvas800x600 (video1080p t f)) = 800
   \<and> lay_h (getVideoLayout canvas800x600 (video1080p t f)) = 450
   \<and> lay_x (getVideoLayout canvas800x600 (video1080p t f)) = 0
   \<and> lay_y (getVideoLayout canvas800x600 (video1080p t f)) = 75
   \<and> getVideoSpacePoint (Some canvas800x600) (Some (video1080p t f))
        \<lparr>clientX = 400, clientY = 300\<rparr>
      = Inr \<lparr>pt_x = 960, pt_y = 540, pt_r = None, pt_timestamp = None\<rparr>"
proof -
  have general: "getVideoLayout canvas video =
     (if videoWidth video = 0 \<or> videoHeight video = 0
      then \<lparr>lay_x = 0, lay_y = 0, lay_w = real (canvas_width canvas),
            lay_h = real (canvas_height canvas), lay_scale = 1\<rparr>
      else
        let s = min (real (canvas_width canvas) / real (videoWidth video))
                    (real (canvas_height canvas) / real (videoHeight video))
        in \<lparr>lay_x = (real (canvas_width canvas) - real (videoWidth video) * s) / 2,
            lay_y = (real (canvas_height canvas) - real (videoHeight video) * s) / 2,
            lay_w = real (videoWidth video) * s,
            lay_h = real (videoHeight video) * s,
            lay_scale = s\<rparr>)"
  proof (cases "videoWidth video = 0 \<or> videoHeight video = 0")
    case True
    then show ?thesis using getVideoLayout_unknown [OF True] by simp
  next
    case False
    then have "0 < videoWidth video" "0 < videoHeight video" by simp_all
    from getVideoLayout_known [OF this] False show ?thesis by simp
  qed
  have inv: "getVideoSpacePoint (Some canvas800x600) (Some (video1080p t f))
        \<lparr>clientX = 400, clientY = 300\<rparr>
      = Inr \<lparr>pt_x = 960, pt_y = 540, pt_r = None, pt_timestamp = None\<rparr>"
    by (simp add: getVideoSpacePoint_def layout_800x600_1080p Let_def)
      (simp add: canvas800x600_def)
  show ?thesis
    apply (rule conjI [OF general])
    apply (simp add: layout_800x600_1080p inv)
    done
qed

theorem contain_fit_mapping_witness:
  "getVideoLayout \<lparr>canvas_width = 600, canvas_height = 800, canvas_left = 0, canvas_top = 0\<rparr>
       (video1080p 0 [])
     = \<lparr>lay_x = 0, lay_y = 925 / 4, lay_w = 600, lay_h = 675 / 2, lay_scale = 5 / 16\<rparr>
   \<and> getVideoLayout canvas800x600
       \<lparr>videoWidth = 0, videoHeight = 0, video_currentTime = 0, video_frame = []\<rparr>
     = \<lparr>lay_x = 0, lay_y = 0, lay_w = 800, lay_h = 600, lay_scale = 1\<rparr>"
  using contain_fit_mapping
    [of "\<lparr>canvas_width = 600, canvas_height = 800, canvas_left = 0, canvas_top = 0\<rparr>"
        "video1080p 0 []" 0 "[]"]
    contain_fit_mapping
    [of canvas800x600
        "\<lparr>videoWidth = 0, videoHeight = 0, video_currentTime = 0, video_frame = []\<rparr>" 0 "[]"]
  by (simp add: video1080p_def canvas800x600_def Let_def)

section \<open>Which operations reset the transient interaction state\<close>

text \<open>
  Claim C9, as amended. After enabling playback and after a global clear the transient
  interaction state is idle: no accumulated points, no drawing in progress, no drag start,
  the player-move state machine in \<open>Idle\<close>, no pending selection rectangle and no
  captured sprite. The click on a tool button changes at most the active tool: it leaves
  each of these six parts of the transient state as it was.
\<close>

theorem transient_reset:
  "activePoints (enablePlayback st) = [] \<and> \<not> isDrawing (enablePlayback st)
   \<and> currentDragStart (enablePlayback st) = None
   \<and> playerMoveState (enablePlayback st) = Idle
   \<and> playerSelectionRect (enablePlayback st) = None
   \<and> capturedSprite (enablePlayback st) = None
   \<and> activePoints (clearAll st) = [] \<and> \<not> isDrawing (clearAll st)
   \<and> currentDragStart (clearAll st) = None
   \<and> playerMoveState (clearAll st) = Idle
   \<and> playerSelectionRect (clearAll st) = None
   \<and> capturedSprite (clearAll st) = None
   \<and> activePoints (setToolOnClick item st) = activePoints st
   \<and> isDrawing (setToolOnClick item st) = isDrawing st
   \<and> currentDragStart (setToolOnClick item st) = currentDragStart st
   \<and> playerMoveState (setToolOnClick item st) = playerMoveState st
   \<and> playerSelectionRect (setToolOnClick item st) = playerSelectionRect st
   \<and> capturedSprite (setToolOnClick item st) = capturedSprite st"
  by (simp add: enablePlayback_def isPlayingEffect_def clearAll_def setToolOnClick_def)

theorem transient_reset_witness:
  "activePoints (enablePlayback
      (initialWorkspace\<lparr>tool := Some Polygon, activePoints := [mkPoint 10 10]\<rparr>)) = []
   \<and> activePoints (clearAll
      (initialWorkspace\<lparr>tool := Some Polygon, activePoints := [mkPoint 10 10]\<rparr>)) = []
   \<and> activePoints (setToolOnClick Line
      (initialWorkspace\<lparr>tool := Some Polygon, activePoints := [mkPoint 10 10]\<rparr>))
     = [mkPoint 10 10]"
  using transient_reset
    [of "initialWorkspace\<lparr>tool := Some Polygon, activePoints := [mkPoint 10 10]\<rparr>" Line]
  by simp

text \<open>
  The claim as stated fails for the tool switch. With one polygon vertex placed, the
  click on the line tool makes the line tool active and the vertex is still accumulated;
  with a player-move selection under way, the click leaves the state machine in
  \<open>Selecting\<close>.
\<close>

theorem tool_switch_keeps_transient_counterexample:
  "tool (setToolOnClick Line
      (initialWorkspace\<lparr>tool := Some Polygon, activePoints := [mkPoint 10 10]\<rparr>)) = Some Line
   \<and> activePoints (setToolOnClick Line
      (initialWorkspace\<lparr>tool := Some Polygon, activePoints := [mkPoint 10 10]\<rparr>)) \<noteq> []
   \<and> playerMoveState (setToolOnClick Line
      (initialWorkspace\<lparr>tool := Some PlayerMove, playerMoveState := Selecting,
         playerSelectionRect := Some \<lparr>rect_x = 5, rect_y = 5, rect_w = 0, rect_h = 0\<rparr>\<rparr>))
     \<noteq> Idle"
  by (simp add: setToolOnClick_def initialWorkspace_def)

section \<open>Properties of the mask synchronisation test\<close>

lemma isMaskSynced_iff:
  "mc_timestamp cache \<noteq> - 1 \<or> 0 \<le> t \<Longrightarrow>
     isMaskSynced cache t \<longleftrightarrow> \<bar>mc_timestamp cache - t\<bar> < 0.15"
  by (auto simp: isMaskSynced_def)

lemma DrawImage_notin_drawLower: "DrawImage bmp a b c d \<notin> set (drawLower sc shape)"
  by (simp add: drawLower_def)

lemma DrawImage_notin_drawUpper: "DrawImage bmp a b c d \<notin> set (drawUpper sc shape)"
  unfolding drawUpper_def
  by (simp only: set_append Un_iff de_Morgan_disj list.set insert_iff empty_iff
        DrawOp.distinct simp_thms split: option.split list.split if_split)

lemma renderCanvas_unsynced:
  assumes "videoRef env = Some video"
    and "\<not> isMaskSynced (maskCache st) (video_currentTime video)"
  shows "DrawImage bmp a b c d \<notin> set (renderCanvas env st)"
  using assms
  by (simp add: renderCanvas_def Let_def DrawImage_notin_drawLower DrawImage_notin_drawUpper
      split: option.splits)

text \<open>
  Claim C4, as amended. For a cache that holds a sample (its timestamp is not the
  sentinel -1) or a video time that is not negative, the cache is synced exactly when
  \<open>\<bar>timestamp - currentVideoTime\<bar> < 0.15\<close>. When the cache is not synced,
  \<open>renderCanvas\<close> issues no \<open>drawImage\<close>: neither the overlay nor the foreground
  bitmap is drawn. A cache sampled at video time 10 is synced exactly for the video times
  of the open interval from 9.85 to 10.15; the two end points are not synced.
\<close>

theorem mask_sync_window:
  assumes "videoRef env = Some video"
    and "mc_timestamp cache \<noteq> - 1 \<or> 0 \<le> t"
  shows "(isMaskSynced cache t \<longleftrightarrow> \<bar>mc_timestamp cache - t\<bar> < 0.15)
       \<and> (isMaskSynced (maskCache st) (video_currentTime video)
            \<or> DrawImage bmp a b c d \<notin> set (renderCanvas env st))
       \<and> (isMaskSynced (cache\<lparr>mc_timestamp := 10\<rparr>) u \<longleftrightarrow> 9.85 < u \<and> u < 10.15)"
proof -
  have 1: "isMaskSynced cache t \<longleftrightarrow> \<bar>mc_timestamp cache - t\<bar> < 0.15"
    using isMaskSynced_iff [OF assms(2)] .
  have 2: "isMaskSynced (maskCache st) (video_currentTime video)
            \<or> DrawImage bmp a b c d \<notin> set (renderCanvas env st)"
    using renderCanvas_unsynced [OF assms(1)] by blast
  have 3: "isMaskSynced (cache\<lparr>mc_timestamp := 10\<rparr>) u \<longleftrightarrow> 9.85 < u \<and> u < 10.15"
    by (auto simp: isMaskSynced_def abs_if)
  show ?thesis using 1 2 3 by blast
qed

theorem mask_sync_window_witness:
  "isMaskSynced \<lparr>mc_foreground = Some (PixelBitmap 1 1 [whitePixel]),
       mc_overlay = Some (PixelBitmap 1 1 [greenPixel]), mc_timestamp = 10\<rparr> 10.149
   \<and> \<not> isMaskSynced \<lparr>mc_foreground = Some (PixelBitmap 1 1 [whitePixel]),
       mc_overlay = Some (PixelBitmap 1 1 [greenPixel]), mc_timestamp = 10\<rparr> 10.151
   \<and> DrawImage (PixelBitmap 1 1 [whitePixel]) 0 75 800 450
       \<notin> set (renderCanvas (sampleEnv 10.151 [])
           (initialWorkspace
              \<lparr>maskSettings := \<lparr>ms_enabled = True, ms_sensitivity = 40, ms_showOverlay = True\<rparr>,
               maskCache := \<lparr>mc_foreground = Some (PixelBitmap 1 1 [whitePixel]),
                  mc_overlay = Some (PixelBitmap 1 1 [greenPixel]), mc_timestamp = 10\<rparr>\<rparr>))
   \<and> DrawImage (PixelBitmap 1 1 [whitePixel]) 0 75 800 450
       \<in> set (renderCanvas (sampleEnv 10.149 [])
           (initialWorkspace
              \<lparr>maskSettings := \<lparr>ms_enabled = True, ms_sensitivity = 40, ms_showOverlay = True\<rparr>,
               maskCache := \<lparr>mc_foreground = Some (PixelBitmap 1 1 [whitePixel]),
                  mc_overlay = Some (PixelBitmap 1 1 [greenPixel]), mc_timestamp = 10\<rparr>\<rparr>))"
proof -
  let ?cache = "\<lparr>mc_foreground = Some (PixelBitmap 1 1 [whitePixel]),
       mc_overlay = Some (PixelBitmap 1 1 [greenPixel]), mc_timestamp = 10\<rparr>"
  let ?st = "initialWorkspace
              \<lparr>maskSettings := \<lparr>ms_enabled = True, ms_sensitivity = 40, ms_showOverlay = True\<rparr>,
               maskCache := ?cache\<rparr>"
  have v: "videoRef (sampleEnv 10.151 []) = Some (video1080p 10.151 [])"
    by (simp add: sampleEnv_def)
  have h: "mc_timestamp ?cache \<noteq> - 1 \<or> (0::real) \<le> 10.149" by simp
  note w = mask_sync_window [OF v h, of ?st "PixelBitmap 1 1 [whitePixel]" 0 75 800 450]
  have t: "video_currentTime (video1080p 10.151 []) = 10.151"
    by (simp add: video1080p_def)
  have m: "maskCache ?st = ?cache" by simp
  have a: "isMaskSynced ?cache 10.149" using w by simp
  have b: "\<not> isMaskSynced ?cache 10.151" using w by simp
  have c: "DrawImage (PixelBitmap 1 1 [whitePixel]) 0 75 800 450
       \<notin> set (renderCanvas (sampleEnv 10.151 []) ?st)"
    using w b unfolding t m by blast
  have d: "DrawImage (PixelBitmap 1 1 [whitePixel]) 0 75 800 450
       \<in> set (renderCanvas (sampleEnv 10.149 []) ?st)"
    using a
    by (simp add: renderCanvas_def sampleEnv_def layout_800x600_1080p Let_def)
      (simp add: video1080p_def initialWorkspace_def)
  show ?thesis using a b c d by blast
qed

text \<open>
  The claim as stated fails at both end points of the closed interval: at video times
  10.15 and 9.85 the distance to the sample time 10 is 0.15, which is not less than 0.15.
\<close>

theorem mask_sync_closed_interval_counterexample:
  "(10.15::real) \<in> {9.85..10.15}
   \<and> \<not> isMaskSynced \<lparr>mc_foreground = Some (PixelBitmap 1 1 [whitePixel]),
       mc_overlay = Some (PixelBitmap 1 1 [greenPixel]), mc_timestamp = 10\<rparr> 10.15
   \<and> (9.85::real) \<in> {9.85..10.15}
   \<and> \<not> isMaskSynced \<lparr>mc_foreground = Some (PixelBitmap 1 1 [whitePixel]),
       mc_overlay = Some (PixelBitmap 1 1 [greenPixel]), mc_timestamp = 10\<rparr> 9.85"
  by (simp add: isMaskSynced_def)

section \<open>Properties of the rounding\<close>

lemma roundHalfEven_floor: "\<lfloor>m\<rfloor> \<le> roundHalfEven m \<and> roundHalfEven m \<le> \<lfloor>m\<rfloor> + 1"
  by (simp add: roundHalfEven_def Let_def)

lemma roundHalfEven_ge: "of_int k \<le> m \<Longrightarrow> k \<le> roundHalfEven m"
proof -
  assume "of_int k \<le> m"
  then have "k \<le> \<lfloor>m\<rfloor>" by (simp only: le_floor_iff)
  then show ?thesis using roundHalfEven_floor [of m] by linarith
qed

lemma roundHalfEven_le: "m \<le> of_int k \<Longrightarrow> roundHalfEven m \<le> k"
proof (cases "m = of_int k")
  case True
  then show ?thesis by (simp add: roundHalfEven_def Let_def)
next
  case False
  assume "m \<le> of_int k"
  with False have "m < of_int k" by simp
  then have "\<lfloor>m\<rfloor> < k" by (simp add: floor_less_iff)
  then show ?thesis using roundHalfEven_floor [of m] by linarith
qed

lemma roundHalfEven_mono: "m \<le> m' \<Longrightarrow> roundHalfEven m \<le> roundHalfEven m'"
proof (cases "\<lfloor>m\<rfloor> = \<lfloor>m'\<rfloor>")
  case True
  assume "m \<le> m'"
  then have "m - of_int \<lfloor>m\<rfloor> \<le> m' - of_int \<lfloor>m'\<rfloor>" using True by simp
  then show ?thesis using True by (auto simp: roundHalfEven_def Let_def)
next
  case False
  assume "m \<le> m'"
  then have "\<lfloor>m\<rfloor> \<le> \<lfloor>m'\<rfloor>" by (rule floor_mono)
  with False have "\<lfloor>m\<rfloor> + 1 \<le> \<lfloor>m'\<rfloor>" by simp
  then show ?thesis using roundHalfEven_floor [of m] roundHalfEven_floor [of m'] by linarith
qed

lemma binaryExponent_bounds:
  assumes "0 < a"
  shows "2 powi binaryExponent a \<le> a \<and> a < 2 powi (binaryExponent a + 1)"
proof (cases "1 \<le> a")
  case True
  then have n: "0 < \<lfloor>a\<rfloor>" by simp
  let ?k = "nat (bitlen \<lfloor>a\<rfloor> - 1)"
  from n have b1: "1 \<le> bitlen \<lfloor>a\<rfloor>" by (auto simp: bitlen_alt_def)
  have e: "binaryExponent a = int ?k" using True b1 by (simp add: binaryExponent_def)
  have k1: "nat (bitlen \<lfloor>a\<rfloor>) = Suc ?k" using b1 by simp
  from bitlen_bounds [OF n] have lo: "(2::int) ^ ?k \<le> \<lfloor>a\<rfloor>" and hi: "\<lfloor>a\<rfloor> < (2::int) ^ Suc ?k"
    by (simp_all add: k1)
  from lo have "of_int ((2::int) ^ ?k) \<le> a" by (simp only: le_floor_iff)
  then have 1: "(2::real) ^ ?k \<le> a" by simp
  from hi have "a < of_int ((2::int) ^ Suc ?k)" by (simp only: floor_less_iff)
  then have 2: "a < (2::real) ^ Suc ?k" by simp
  have s: "int ?k + 1 = int (Suc ?k)" by simp
  show ?thesis unfolding e s power_int_of_nat using 1 2 by simp
next
  case False
  then have a1: "a < 1" by simp
  let ?y = "1 / a"
  have y1: "1 < ?y" using assms a1 by simp
  then have c2: "2 \<le> \<lceil>?y\<rceil>" by (simp add: le_ceiling_iff) 
  let ?m = "\<lceil>?y\<rceil> - 1"
  have m: "0 < ?m" using c2 by simp
  let ?k = "nat (bitlen ?m - 1)"
  from m have b1: "1 \<le> bitlen ?m" by (auto simp: bitlen_alt_def)
  have k1: "nat (bitlen ?m) = Suc ?k" using b1 by simp
  have e: "binaryExponent a = - int (Suc ?k)" using a1 b1 by (simp add: binaryExponent_def)
  from bitlen_bounds [OF m] have lo: "(2::int) ^ ?k \<le> ?m" and hi: "?m < (2::int) ^ Suc ?k"
    by (simp_all add: k1)
  from hi have "\<lceil>?y\<rceil> \<le> (2::int) ^ Suc ?k" by simp
  then have "?y \<le> of_int ((2::int) ^ Suc ?k)" by (simp only: ceiling_le_iff)
  then have yle: "?y \<le> (2::real) ^ Suc ?k" by simp
  from lo have "(2::int) ^ ?k < \<lceil>?y\<rceil>" by simp
  then have "of_int ((2::int) ^ ?k) < ?y" by (simp only: less_ceiling_iff)
  then have ygt: "(2::real) ^ ?k < ?y" by simp
  have p: "(0::real) < 2 ^ Suc ?k" "(0::real) < 2 ^ ?k" by simp_all
  have 1: "1 / (2::real) ^ Suc ?k \<le> a"
    using yle assms p(1) by (simp add: field_simps)
  have 2: "a < 1 / (2::real) ^ ?k"
    using ygt assms p(2) by (simp add: field_simps)
  have s1: "(2::real) powi (- int (Suc ?k)) = 1 / 2 ^ Suc ?k"
    by (simp only: power_int_minus_divide power_int_of_nat)
  have s2: "(2::real) powi (- int (Suc ?k) + 1) = 1 / 2 ^ ?k"
  proof -
    have "- int (Suc ?k) + 1 = - int ?k" by simp
    then show ?thesis by (simp only: power_int_minus_divide power_int_of_nat)
  qed
  show ?thesis unfolding e s1 s2 using 1 2 by simp
qed

lemma binaryExponent_mono:
  assumes "0 < x" and "x \<le> y"
  shows "binaryExponent x \<le> binaryExponent y"
proof (rule ccontr)
  assume "\<not> binaryExponent x \<le> binaryExponent y"
  then have "binaryExponent y + 1 \<le> binaryExponent x" by simp
  then have "(2::real) powi (binaryExponent y + 1) \<le> 2 powi binaryExponent x"
    by (intro power_int_increasing) simp_all
  moreover have "0 < y" using assms by simp
  ultimately show False
    using binaryExponent_bounds [OF assms(1)] binaryExponent_bounds [OF \<open>0 < y\<close>] assms(2)
    by linarith
qed

lemma fl_pos_eq:
  "0 < x \<Longrightarrow> fl x = of_int (roundHalfEven (x / 2 powi (binaryExponent x - 52)))
                     * 2 powi (binaryExponent x - 52)"
  by (simp add: fl_def Let_def)

lemma fl_pos_bounds:
  assumes "0 < x"
  shows "2 powi binaryExponent x \<le> fl x \<and> fl x \<le> 2 powi (binaryExponent x + 1)"
proof -
  let ?e = "binaryExponent x"
  let ?u = "(2::real) powi (?e - 52)"
  have u: "0 < ?u" by (simp add: zero_less_power_int)
  have pe: "(2::real) powi ?e = 2 ^ 52 * ?u"
    by (simp add: power_int_diff)
  have pe1: "(2::real) powi (?e + 1) = 2 ^ 53 * ?u"
    by (simp add: power_int_diff power_int_add)
  from binaryExponent_bounds [OF assms]
  have "2 ^ 52 * ?u \<le> x" "x < 2 ^ 53 * ?u" unfolding pe pe1 by simp_all
  then have lo: "of_int (2 ^ 52) \<le> x / ?u" and hi: "x / ?u \<le> of_int (2 ^ 53)"
    using u by (simp_all add: field_simps)
  have "2 ^ 52 \<le> roundHalfEven (x / ?u)" using roundHalfEven_ge [OF lo] .
  then have "(of_int (2 ^ 52) :: real) \<le> of_int (roundHalfEven (x / ?u))"
    by (simp only: of_int_le_iff)
  then have "(2::real) ^ 52 \<le> of_int (roundHalfEven (x / ?u))" by simp
  then have 1: "2 ^ 52 * ?u \<le> of_int (roundHalfEven (x / ?u)) * ?u"
    using u by (simp only: mult_le_cancel_right_pos)
  have "roundHalfEven (x / ?u) \<le> 2 ^ 53" using roundHalfEven_le [OF hi] .
  then have "(of_int (roundHalfEven (x / ?u)) :: real) \<le> of_int (2 ^ 53)"
    by (simp only: of_int_le_iff)
  then have "of_int (roundHalfEven (x / ?u)) \<le> (2::real) ^ 53" by simp
  then have 2: "of_int (roundHalfEven (x / ?u)) * ?u \<le> 2 ^ 53 * ?u"
    using u by (simp only: mult_le_cancel_right_pos)
  show ?thesis unfolding fl_pos_eq [OF assms] pe pe1 using 1 2 by simp
qed

lemma fl_mono_pos:
  assumes "0 < x" and "x \<le> y"
  shows "fl x \<le> fl y"
proof -
  have y: "0 < y" using assms by simp
  have le: "binaryExponent x \<le> binaryExponent y" using binaryExponent_mono [OF assms] .
  show ?thesis
  proof (cases "binaryExponent x = binaryExponent y")
    case True
    let ?u = "(2::real) powi (binaryExponent y - 52)"
    have u: "0 < ?u" by (simp add: zero_less_power_int)
    have "x / ?u \<le> y / ?u" using assms(2) u by (simp add: divide_right_mono)
    then have "roundHalfEven (x / ?u) \<le> roundHalfEven (y / ?u)" by (rule roundHalfEven_mono)
    then have "(of_int (roundHalfEven (x / ?u)) :: real) \<le> of_int (roundHalfEven (y / ?u))"
      by simp
    then have "of_int (roundHalfEven (x / ?u)) * ?u \<le> of_int (roundHalfEven (y / ?u)) * ?u"
      using u by (simp only: mult_le_cancel_right_pos)
    then show ?thesis unfolding fl_pos_eq [OF assms(1)] fl_pos_eq [OF y] True .
  next
    case False
    with le have "binaryExponent x + 1 \<le> binaryExponent y" by simp
    then have "(2::real) powi (binaryExponent x + 1) \<le> 2 powi binaryExponent y"
      by (intro power_int_increasing) simp_all
    then show ?thesis using fl_pos_bounds [OF assms(1)] fl_pos_bounds [OF y] by linarith
  qed
qed

lemma fl_minus: "fl (- x) = - fl x"
  by (simp add: fl_def Let_def sgn_minus)

lemma fl_nonneg: "0 \<le> x \<Longrightarrow> 0 \<le> fl x"
proof (cases "x = 0")
  case True
  then show ?thesis by (simp add: fl_def)
next
  case False
  assume "0 \<le> x"
  with False have x: "0 < x" by simp
  have "(0::real) < 2 powi binaryExponent x" by (simp add: zero_less_power_int)
  then show ?thesis using fl_pos_bounds [OF x] by linarith
qed

lemma fl_mono: "x \<le> y \<Longrightarrow> fl x \<le> fl y"
proof -
  assume xy: "x \<le> y"
  consider "0 < x" | "x \<le> 0" "0 \<le> y" | "y < 0" by linarith
  then show ?thesis
  proof cases
    case 1
    then show ?thesis using fl_mono_pos xy by simp
  next
    case 2
    have "0 \<le> fl (- x)" using 2(1) by (intro fl_nonneg) simp
    then have "fl x \<le> 0" by (simp add: fl_minus)
    moreover have "0 \<le> fl y" using 2(2) by (rule fl_nonneg)
    ultimately show ?thesis by simp
  next
    case 3
    then have "0 < - y" "- y \<le> - x" using xy by simp_all
    then have "fl (- y) \<le> fl (- x)" by (rule fl_mono_pos)
    then show ?thesis by (simp add: fl_minus)
  qed
qed


section \<open>Properties of the chroma-key classification\<close>

lemma hsl_green: "rgbToHsl 0 255 0 = (120, 1, 1 / 2)"
  by code_simp










lemma thresholds_40:
  "fl (75 - fl (40 * fl 0.4)) = 59"
  "fl (155 + fl (40 * fl 0.4)) = 171"
  "fl 0.15 = 5404319552844595 / 36028797018963968"
  "fl 0.85 = 7656119366529843 / 9007199254740992"
  by code_simp+

lemma isGreen_40:
  "isGreen 40 r g b \<longleftrightarrow>
     (case rgbToHsl (real (unat r)) (real (unat g)) (real (unat b)) of
        (h, s, l) \<Rightarrow>
          59 \<le> h \<and> h \<le> 171 \<and> 5404319552844595 / 36028797018963968 \<le> s
          \<and> 5404319552844595 / 36028797018963968 \<le> l
          \<and> l \<le> 7656119366529843 / 9007199254740992)"
  unfolding isGreen_def Let_def thresholds_40 by (simp split: prod.split)

lemma isGreen_40_green: "isGreen 40 0 255 0"
  by (simp add: isGreen_40 hsl_green)







lemma isGreen_iff:
  "isGreen s r g b \<longleftrightarrow>
     (case rgbToHsl (real (unat r)) (real (unat g)) (real (unat b)) of
        (h, sat, l) \<Rightarrow>
          fl (75 - fl (s * fl 0.4)) \<le> h \<and> h \<le> fl (155 + fl (s * fl 0.4))
          \<and> fl 0.15 \<le> sat \<and> fl 0.15 \<le> l \<and> l \<le> fl 0.85)"
  unfolding isGreen_def Let_def by (simp split: prod.split)


lemma isGreen_mono:
  assumes "s1 \<le> s2" and "isGreen s1 r g b"
  shows "isGreen s2 r g b"
proof -
  have c: "0 \<le> fl 0.4" by (intro fl_nonneg) simp
  have m: "fl (s1 * fl 0.4) \<le> fl (s2 * fl 0.4)"
    using assms(1) c by (intro fl_mono mult_right_mono)
  have lo: "fl (75 - fl (s2 * fl 0.4)) \<le> fl (75 - fl (s1 * fl 0.4))"
    using m by (intro fl_mono) simp
  have hi: "fl (155 + fl (s1 * fl 0.4)) \<le> fl (155 + fl (s2 * fl 0.4))"
    using m by (intro fl_mono) simp
  show ?thesis
    using assms(2) lo hi unfolding isGreen_iff by (auto split: prod.splits)
qed





text \<open>
  Claim C7. The two layers written for a pixel are a function of its red, green and blue
  components and of the sensitivity alone: two pixels of the same colour get the same
  foreground and overlay pixel, in any frame and in any run. The classification is
  monotonic in the sensitivity: for \<open>s1 \<le> s2\<close>, a pixel that is background at
  sensitivity \<open>s1\<close> is background at \<open>s2\<close>, and a pixel whose foreground alpha is 0 at
  \<open>s1\<close> has foreground alpha 0 at \<open>s2\<close>.
\<close>

theorem classification_deterministic_monotone:
  "(px_r p = px_r q \<and> px_g p = px_g q \<and> px_b p = px_b q
      \<longrightarrow> maskPixel s p = maskPixel s q)
   \<and> (s1 \<le> s2 \<and> isGreen s1 r g b \<longrightarrow> isGreen s2 r g b)
   \<and> (s1 \<le> s2 \<and> px_a (fst (maskPixel s1 p)) = 0 \<longrightarrow> px_a (fst (maskPixel s2 p)) = 0)"
proof -
  have 1: "px_r p = px_r q \<and> px_g p = px_g q \<and> px_b p = px_b q
      \<longrightarrow> maskPixel s p = maskPixel s q"
    by (simp add: maskPixel_def Let_def)
  have 2: "s1 \<le> s2 \<and> isGreen s1 r g b \<longrightarrow> isGreen s2 r g b"
    using isGreen_mono by blast
  have 3: "s1 \<le> s2 \<and> px_a (fst (maskPixel s1 p)) = 0 \<longrightarrow> px_a (fst (maskPixel s2 p)) = 0"
    using isGreen_mono [of s1 s2 "px_r p" "px_g p" "px_b p"]
    by (auto simp: maskPixel_def Let_def split: if_splits)
  show ?thesis using 1 2 3 by blast
qed

theorem classification_deterministic_monotone_witness:
  "px_r greenPixel = px_r (greenPixel\<lparr>px_a := 7\<rparr>)
   \<and> maskPixel 100 greenPixel = maskPixel 100 (greenPixel\<lparr>px_a := 7\<rparr>)
   \<and> (40::real) \<le> 100 \<and> isGreen 40 0 255 0 \<and> isGreen 100 0 255 0
   \<and> px_a (fst (maskPixel 40 greenPixel)) = 0 \<and> px_a (fst (maskPixel 100 greenPixel)) = 0"
proof -
  have g0: "isGreen 40 0 255 0" by (rule isGreen_40_green)
  have a0: "px_a (fst (maskPixel 40 greenPixel)) = 0"
    using g0 by (simp add: maskPixel_def greenPixel_def)
  note t = classification_deterministic_monotone
        [where p = greenPixel and q = "greenPixel\<lparr>px_a := 7\<rparr>" and s = 100
           and ?s1.0 = 40 and ?s2.0 = 100 and r = 0 and g = 255 and b = 0]
  have m: "maskPixel 100 (greenPixel\<lparr>px_a := 7\<rparr>) = maskPixel 100 greenPixel"
    using t [THEN conjunct1] by simp
  have g100: "isGreen 100 0 255 0"
    using t [THEN conjunct2, THEN conjunct1] g0 by simp
  have a100: "px_a (fst (maskPixel 100 greenPixel)) = 0"
    using t [THEN conjunct2, THEN conjunct2] a0 by simp
  show ?thesis
    using g0 a0 g100 a100 by (simp add: m)
qed

section \<open>Closing a chain\<close>

lemma finishChain_close:
  assumes "isDrawing st" and "currentDragStart st = Some dragStart"
    and "2 \<le> length (activePoints st)"
    and "getDistance currentPoint (activePoints st ! 0) < 40"
  shows "\<exists>newShape.
      shapes (finishChain env currentPoint st) = shapes st @ [newShape]
    \<and> shape_type newShape = Some ConnectedCircle
    \<and> shape_isClosed newShape = Some True
    \<and> shape_points newShape = activePoints st
    \<and> activePoints (finishChain env currentPoint st) = []
    \<and> \<not> isDrawing (finishChain env currentPoint st)
    \<and> currentDragStart (finishChain env currentPoint st) = None"
  using assms by (simp add: finishChain_def Let_def addShape_def)

lemma finishDrawing_chain:
  "tool st = Some ConnectedCircle \<Longrightarrow>
     finishDrawing env currentPoint st = Inr (finishChain env currentPoint st, None)"
  by (simp add: finishDrawing_def)

text \<open>
  Claim C5. Let the chain tool be active with at least two accepted nodes and a pointer
  press under way (a drawing in progress with its drag start recorded). When the pointer
  is released at a point less than 40 video-space units from the first node,
  \<open>finishDrawing\<close> appends exactly one shape to the history: a chain with
  \<open>isClosed = true\<close> whose points are the nodes accepted before, so the release adds no
  node. The in-progress chain is then empty and no drawing is in progress.
\<close>

theorem chain_closure:
  assumes "tool st = Some ConnectedCircle"
    and "isDrawing st" and "currentDragStart st = Some dragStart"
    and "2 \<le> length (activePoints st)"
    and "getDistance currentPoint (activePoints st ! 0) < 40"
  shows "\<exists>st' newShape.
      finishDrawing env currentPoint st = Inr (st', None)
    \<and> shapes st' = shapes st @ [newShape]
    \<and> shape_type newShape = Some ConnectedCircle
    \<and> shape_isClosed newShape = Some True
    \<and> shape_points newShape = activePoints st
    \<and> length (shape_points newShape) = length (activePoints st)
    \<and> activePoints st' = []
    \<and> \<not> isDrawing st'
    \<and> currentDragStart st' = None"
proof -
  from finishChain_close [OF assms(2-5), of env] obtain newShape where
    n: "shapes (finishChain env currentPoint st) = shapes st @ [newShape]"
       "shape_type newShape = Some ConnectedCircle"
       "shape_isClosed newShape = Some True"
       "shape_points newShape = activePoints st"
       "activePoints (finishChain env currentPoint st) = []"
       "\<not> isDrawing (finishChain env currentPoint st)"
       "currentDragStart (finishChain env currentPoint st) = None"
    by blast
  show ?thesis
    apply (rule exI [of _ "finishChain env currentPoint st"])
    apply (rule exI [of _ newShape])
    using finishDrawing_chain [OF assms(1), of env currentPoint] n
    apply simp
    done
qed

theorem chain_closure_witness:
  "getDistance (mkPoint 110 100) (activePoints chainInProgress ! 0) < 40
   \<and> (\<exists>st' newShape.
      finishDrawing (sampleEnv 0 []) (mkPoint 110 100) chainInProgress = Inr (st', None)
    \<and> shapes st' = [newShape]
    \<and> shape_isClosed newShape = Some True
    \<and> length (shape_points newShape) = 3
    \<and> activePoints st' = [])"
proof -
  have h1: "tool chainInProgress = Some ConnectedCircle"
    and h2: "isDrawing chainInProgress"
    and h3: "currentDragStart chainInProgress = Some (mkPoint 110 100)"
    and h4: "2 \<le> length (activePoints chainInProgress)"
    by (simp_all add: chainInProgress_def)
  have h5: "getDistance (mkPoint 110 100) (activePoints chainInProgress ! 0) < 40"
    by (simp add: chainInProgress_def getDistance_def mkPoint_def mkNode_def)
  have s: "shapes chainInProgress = []" "length (activePoints chainInProgress) = 3"
    by (simp_all add: chainInProgress_def initialWorkspace_def)
  from chain_closure [OF h1 h2 h3 h4 h5, of "sampleEnv 0 []"] h5 s
  show ?thesis by auto
qed

section \<open>Properties of the sprite capture\<close>

lemma captureSprite_ok:
  assumes "videoRef env = Some video" and "offscreen2d env"
    and "0 < rect_w rect" and "0 < rect_h rect"
  shows "\<exists>src. captureSprite env st rect =
      Some \<lparr>cs_sprite = RegionBitmap src (rect_x rect) (rect_y rect)
                 \<lceil>rect_w rect\<rceil> \<lceil>rect_h rect\<rceil>,
            cs_patch = RegionBitmap FromVideo
                 (max 0 (if rect_x rect + 1.5 * real_of_int \<lceil>rect_w rect\<rceil>
                              + real_of_int \<lceil>rect_w rect\<rceil> > real (videoWidth video)
                         then rect_x rect - 1.5 * real_of_int \<lceil>rect_w rect\<rceil>
                         else rect_x rect + 1.5 * real_of_int \<lceil>rect_w rect\<rceil>))
                 (rect_y rect) \<lceil>rect_w rect\<rceil> \<lceil>rect_h rect\<rceil>,
            cs_box = rect\<rparr>"
proof -
  have w: "0 < \<lceil>rect_w rect\<rceil>" and h: "0 < \<lceil>rect_h rect\<rceil>"
    using assms(3,4) by simp_all
  show ?thesis
    using assms(1,2) w h
    by (cases "mc_foreground (maskCache st)")
       (auto simp: captureSprite_def Let_def max_def mult.commute)
qed

text \<open>
  Claim C6, as amended. Let a video be mounted and the offscreen 2D contexts be available,
  and let the capture rectangle have positive width and height; write \<open>w\<close> and \<open>h\<close> for
  its width and height rounded up to whole pixels. \<open>captureSprite\<close> then answers a
  sprite and a background patch that are both \<open>w\<close> by \<open>h\<close> pixels, the sprite read at the
  rectangle's position. The patch is read from the video at the rectangle's y-position
  and at the x-position found by first trying the rectangle's x shifted right by
  \<open>1.5 w\<close>; if that region would end past the right frame boundary
  (\<open>x + 1.5 w + w > videoWidth\<close>) the x shifted left by \<open>1.5 w\<close> is taken instead; a
  negative result is replaced by 0.
\<close>

theorem sprite_background_patch:
  assumes "videoRef env = Some video" and "offscreen2d env"
    and "0 < rect_w rect" and "0 < rect_h rect"
  shows "\<exists>src.
      captureSprite env st rect =
        Some \<lparr>cs_sprite = RegionBitmap src (rect_x rect) (rect_y rect)
                   \<lceil>rect_w rect\<rceil> \<lceil>rect_h rect\<rceil>,
              cs_patch = RegionBitmap FromVideo
                   (max 0 (if rect_x rect + 1.5 * real_of_int \<lceil>rect_w rect\<rceil>
                                + real_of_int \<lceil>rect_w rect\<rceil> > real (videoWidth video)
                           then rect_x rect - 1.5 * real_of_int \<lceil>rect_w rect\<rceil>
                           else rect_x rect + 1.5 * real_of_int \<lceil>rect_w rect\<rceil>))
                   (rect_y rect) \<lceil>rect_w rect\<rceil> \<lceil>rect_h rect\<rceil>,
              cs_box = rect\<rparr>"
  using captureSprite_ok [OF assms, of st] .

theorem sprite_background_patch_witness:
  "(\<exists>src. captureSprite (sampleEnv 0 []) initialWorkspace
        \<lparr>rect_x = 1800, rect_y = 100, rect_w = 60.5, rect_h = 40\<rparr>
      = Some \<lparr>cs_sprite = RegionBitmap src 1800 100 61 40,
               cs_patch = RegionBitmap FromVideo 1708.5 100 61 40,
               cs_box = \<lparr>rect_x = 1800, rect_y = 100, rect_w = 60.5, rect_h = 40\<rparr>\<rparr>)
   \<and> (\<exists>src. captureSprite (sampleEnv 0 []) initialWorkspace
        \<lparr>rect_x = 10, rect_y = 50, rect_w = 1000, rect_h = 40\<rparr>
      = Some \<lparr>cs_sprite = RegionBitmap src 10 50 1000 40,
               cs_patch = RegionBitmap FromVideo 0 50 1000 40,
               cs_box = \<lparr>rect_x = 10, rect_y = 50, rect_w = 1000, rect_h = 40\<rparr>\<rparr>)"
proof -
  have v: "videoRef (sampleEnv 0 []) = Some (video1080p 0 [])"
    and o: "offscreen2d (sampleEnv 0 [])"
    by (simp_all add: sampleEnv_def)
  have w: "videoWidth (video1080p 0 []) = 1920" by (simp add: video1080p_def)
  have a: "\<exists>src. captureSprite (sampleEnv 0 []) initialWorkspace
        \<lparr>rect_x = 1800, rect_y = 100, rect_w = 60.5, rect_h = 40\<rparr>
      = Some \<lparr>cs_sprite = RegionBitmap src 1800 100 61 40,
               cs_patch = RegionBitmap FromVideo 1708.5 100 61 40,
               cs_box = \<lparr>rect_x = 1800, rect_y = 100, rect_w = 60.5, rect_h = 40\<rparr>\<rparr>"
    using sprite_background_patch [OF v o, of
        "\<lparr>rect_x = 1800, rect_y = 100, rect_w = 60.5, rect_h = 40\<rparr>" initialWorkspace]
    by (simp add: w)
  have b: "\<exists>src. captureSprite (sampleEnv 0 []) initialWorkspace
        \<lparr>rect_x = 10, rect_y = 50, rect_w = 1000, rect_h = 40\<rparr>
      = Some \<lparr>cs_sprite = RegionBitmap src 10 50 1000 40,
               cs_patch = RegionBitmap FromVideo 0 50 1000 40,
               cs_box = \<lparr>rect_x = 10, rect_y = 50, rect_w = 1000, rect_h = 40\<rparr>\<rparr>"
    using sprite_background_patch [OF v o, of
        "\<lparr>rect_x = 10, rect_y = 50, rect_w = 1000, rect_h = 40\<rparr>" initialWorkspace]
    by (simp add: w)
  show ?thesis using a b by blast
qed

text \<open>
  The claim as stated fails for a rectangle whose width is not a whole number. The
  rectangle at (0, 0) of width 10.5 and height 10 lies inside the 1920 by 1080 frame and
  its shift to the right by 1.5 times its width stays inside: the claim puts the patch at
  x = 15.75. The code shifts by 1.5 times the width rounded up to 11 and reads the patch at
  x = 16.5.
\<close>

theorem sprite_patch_fractional_width_counterexample:
  "captureSprite (sampleEnv 0 []) initialWorkspace
        \<lparr>rect_x = 0, rect_y = 0, rect_w = 10.5, rect_h = 10\<rparr>
      = Some \<lparr>cs_sprite = RegionBitmap FromVideo 0 0 11 10,
               cs_patch = RegionBitmap FromVideo 16.5 0 11 10,
               cs_box = \<lparr>rect_x = 0, rect_y = 0, rect_w = 10.5, rect_h = 10\<rparr>\<rparr>
   \<and> (0::real) + 1.5 * 10.5 + 10.5 \<le> 1920
   \<and> (16.5::real) \<noteq> 0 + 1.5 * 10.5"
  by (simp add: captureSprite_def sampleEnv_def video1080p_def initialWorkspace_def Let_def)

section \<open>Player-move: the end of the selection drag\<close>

lemma finishDrawing_playerMove:
  "tool st = Some PlayerMove \<Longrightarrow>
     finishDrawing env currentPoint st = Inr (finishPlayerMove env currentPoint st)"
  by (simp add: finishDrawing_def)

lemma finishPlayerMove_small:
  assumes "playerMoveState st = Selecting" and "playerSelectionRect st = Some sel"
    and "\<bar>pt_x currentPoint - rect_x sel\<bar> < 10 \<or> \<bar>pt_y currentPoint - rect_y sel\<bar> < 10"
  shows "finishPlayerMove env currentPoint st =
           (st\<lparr>playerMoveState := Idle, playerSelectionRect := None\<rparr>, None)"
  using assms by (auto simp: finishPlayerMove_def Let_def)

lemma finishPlayerMove_large:
  assumes "playerMoveState st = Selecting" and "playerSelectionRect st = Some sel"
    and "10 \<le> \<bar>pt_x currentPoint - rect_x sel\<bar>"
    and "10 \<le> \<bar>pt_y currentPoint - rect_y sel\<bar>"
  shows "finishPlayerMove env currentPoint st =
           (st\<lparr>playerSelectionRect := None\<rparr>,
            Some \<lparr>rect_x = (if pt_x currentPoint - rect_x sel > 0 then rect_x sel
                              else pt_x currentPoint),
                  rect_y = (if pt_y currentPoint - rect_y sel > 0 then rect_y sel
                              else pt_y currentPoint),
                  rect_w = \<bar>pt_x currentPoint - rect_x sel\<bar>,
                  rect_h = \<bar>pt_y currentPoint - rect_y sel\<bar>\<rparr>)"
  using assms by (simp add: finishPlayerMove_def Let_def not_less [symmetric])

text \<open>
  Claim C8. Let the player-move tool be in its selecting phase with a selection rectangle
  started, a video mounted and the offscreen 2D contexts available, and let \<open>w\<close> and
  \<open>h\<close> be the signed extents from the start of the drag to the point of the pointer-up.
  If both \<open>\<bar>w\<bar>\<close> and \<open>\<bar>h\<bar>\<close> are at least 10, \<open>finishDrawing\<close> raises no anomaly,
  leaves a sprite capture pending for the normalised rectangle of size \<open>\<bar>w\<bar>\<close> by
  \<open>\<bar>h\<bar>\<close>, that capture succeeds, and when it resolves the state machine is in the
  moving phase holding the captured sprite; the shape history is unchanged. If
  \<open>\<bar>w\<bar>\<close> or \<open>\<bar>h\<bar>\<close> is below 10, \<open>finishDrawing\<close> raises no anomaly, leaves no capture
  pending, and returns the state machine to idle with the selection rectangle dropped;
  the shape history and the redo buffer are unchanged and no sprite is captured.
\<close>

theorem player_move_selection_end:
  assumes "tool st = Some PlayerMove"
    and "playerMoveState st = Selecting" and "playerSelectionRect st = Some sel"
    and "videoRef env = Some video" and "offscreen2d env"
  shows "(10 \<le> \<bar>pt_x currentPoint - rect_x sel\<bar> \<and> 10 \<le> \<bar>pt_y currentPoint - rect_y sel\<bar>
          \<longrightarrow> (\<exists>st' finalRect captured.
                 finishDrawing env currentPoint st = Inr (st', Some finalRect)
               \<and> rect_w finalRect = \<bar>pt_x currentPoint - rect_x sel\<bar>
               \<and> rect_h finalRect = \<bar>pt_y currentPoint - rect_y sel\<bar>
               \<and> shapes st' = shapes st
               \<and> captureSprite env st finalRect = Some captured
               \<and> cs_box captured = finalRect
               \<and> playerMoveState (captureSpriteThen (Some captured) st') = Moving
               \<and> capturedSprite (captureSpriteThen (Some captured) st') = Some captured
               \<and> playerSelectionRect (captureSpriteThen (Some captured) st') = None
               \<and> shapes (captureSpriteThen (Some captured) st') = shapes st))
       \<and> (\<bar>pt_x currentPoint - rect_x sel\<bar> < 10 \<or> \<bar>pt_y currentPoint - rect_y sel\<bar> < 10
          \<longrightarrow> (\<exists>st'.
                 finishDrawing env currentPoint st = Inr (st', None)
               \<and> playerMoveState st' = Idle
               \<and> playerSelectionRect st' = None
               \<and> capturedSprite st' = capturedSprite st
               \<and> shapes st' = shapes st
               \<and> redoStack st' = redoStack st))"
proof (intro conjI impI)
  assume big: "10 \<le> \<bar>pt_x currentPoint - rect_x sel\<bar> \<and> 10 \<le> \<bar>pt_y currentPoint - rect_y sel\<bar>"
  let ?st' = "st\<lparr>playerSelectionRect := None\<rparr>"
  let ?rect = "\<lparr>rect_x = (if pt_x currentPoint - rect_x sel > 0 then rect_x sel
                              else pt_x currentPoint),
                  rect_y = (if pt_y currentPoint - rect_y sel > 0 then rect_y sel
                              else pt_y currentPoint),
                  rect_w = \<bar>pt_x currentPoint - rect_x sel\<bar>,
                  rect_h = \<bar>pt_y currentPoint - rect_y sel\<bar>\<rparr>"
  have f: "finishDrawing env currentPoint st = Inr (?st', Some ?rect)"
    using finishDrawing_playerMove [OF assms(1), of env currentPoint]
      finishPlayerMove_large [OF assms(2,3), of currentPoint env] big
    by simp
  have pos: "0 < rect_w ?rect" "0 < rect_h ?rect" using big by auto
  from captureSprite_ok [OF assms(4,5) pos, of st] obtain captured where
    c: "captureSprite env st ?rect = Some captured" "cs_box captured = ?rect"
    by force
  show "\<exists>st' finalRect captured.
                 finishDrawing env currentPoint st = Inr (st', Some finalRect)
               \<and> rect_w finalRect = \<bar>pt_x currentPoint - rect_x sel\<bar>
               \<and> rect_h finalRect = \<bar>pt_y currentPoint - rect_y sel\<bar>
               \<and> shapes st' = shapes st
               \<and> captureSprite env st finalRect = Some captured
               \<and> cs_box captured = finalRect
               \<and> playerMoveState (captureSpriteThen (Some captured) st') = Moving
               \<and> capturedSprite (captureSpriteThen (Some captured) st') = Some captured
               \<and> playerSelectionRect (captureSpriteThen (Some captured) st') = None
               \<and> shapes (captureSpriteThen (Some captured) st') = shapes st"
    apply (rule exI [of _ ?st'], rule exI [of _ ?rect], rule exI [of _ captured])
    apply (simp only: f c)
    apply (simp add: captureSpriteThen_def)
    done
next
  assume small: "\<bar>pt_x currentPoint - rect_x sel\<bar> < 10 \<or> \<bar>pt_y currentPoint - rect_y sel\<bar> < 10"
  have f: "finishDrawing env currentPoint st
             = Inr (st\<lparr>playerMoveState := Idle, playerSelectionRect := None\<rparr>, None)"
    using finishDrawing_playerMove [OF assms(1), of env currentPoint]
      finishPlayerMove_small [OF assms(2,3) small, of env]
    by simp
  show "\<exists>st'. finishDrawing env currentPoint st = Inr (st', None)
               \<and> playerMoveState st' = Idle
               \<and> playerSelectionRect st' = None
               \<and> capturedSprite st' = capturedSprite st
               \<and> shapes st' = shapes st
               \<and> redoStack st' = redoStack st"
    apply (rule exI [of _ "st\<lparr>playerMoveState := Idle, playerSelectionRect := None\<rparr>"])
    apply (simp add: f)
    done
qed

theorem player_move_selection_end_witness:
  "(\<exists>st' finalRect captured.
       finishDrawing (sampleEnv 0 []) (mkPoint 150 20) selectingAt100
         = Inr (st', Some finalRect)
     \<and> rect_w finalRect = 50 \<and> rect_h finalRect = 80
     \<and> captureSprite (sampleEnv 0 []) selectingAt100 finalRect = Some captured
     \<and> playerMoveState (captureSpriteThen (Some captured) st') = Moving
     \<and> shapes (captureSpriteThen (Some captured) st') = [])
   \<and> (\<exists>st'.
       finishDrawing (sampleEnv 0 []) (mkPoint 150 105) selectingAt100 = Inr (st', None)
     \<and> playerMoveState st' = Idle \<and> playerSelectionRect st' = None \<and> shapes st' = [])"
proof -
  have h1: "tool selectingAt100 = Some PlayerMove"
    and h2: "playerMoveState selectingAt100 = Selecting"
    and h3: "playerSelectionRect selectingAt100
               = Some \<lparr>rect_x = 100, rect_y = 100, rect_w = 0, rect_h = 0\<rparr>"
    and s: "shapes selectingAt100 = []"
    by (simp_all add: selectingAt100_def initialWorkspace_def)
  have h4: "videoRef (sampleEnv 0 []) = Some (video1080p 0 [])"
    and h5: "offscreen2d (sampleEnv 0 [])"
    by (simp_all add: sampleEnv_def)
  note t = player_move_selection_end [OF h1 h2 h3 h4 h5]
  have a: "\<exists>st' finalRect captured.
       finishDrawing (sampleEnv 0 []) (mkPoint 150 20) selectingAt100
         = Inr (st', Some finalRect)
     \<and> rect_w finalRect = 50 \<and> rect_h finalRect = 80
     \<and> captureSprite (sampleEnv 0 []) selectingAt100 finalRect = Some captured
     \<and> playerMoveState (captureSpriteThen (Some captured) st') = Moving
     \<and> shapes (captureSpriteThen (Some captured) st') = []"
    using t [of "mkPoint 150 20", THEN conjunct1] s
    by (simp add: mkPoint_def) blast
  have b: "\<exists>st'.
       finishDrawing (sampleEnv 0 []) (mkPoint 150 105) selectingAt100 = Inr (st', None)
     \<and> playerMoveState st' = Idle \<and> playerSelectionRect st' = None \<and> shapes st' = []"
    using t [of "mkPoint 150 105", THEN conjunct2] s
    by (simp add: mkPoint_def) blast
  show ?thesis using a b by blast
qed

end
